theory Spec2Isabelle
  imports Main "HOL-Library.Word"
begin

section \<open>The ODBC constants of tdodbc.py\<close>

abbreviation SQL_NULL_HANDLE :: int where "SQL_NULL_HANDLE \<equiv> 0"
abbreviation SQL_HANDLE_ENV :: int where "SQL_HANDLE_ENV \<equiv> 1"
abbreviation SQL_HANDLE_DBC :: int where "SQL_HANDLE_DBC \<equiv> 2"
abbreviation SQL_HANDLE_STMT :: int where "SQL_HANDLE_STMT \<equiv> 3"

abbreviation SQL_SUCCESS :: int where "SQL_SUCCESS \<equiv> 0"
abbreviation SQL_SUCCESS_WITH_INFO :: int where "SQL_SUCCESS_WITH_INFO \<equiv> 1"
abbreviation SQL_ERROR :: int where "SQL_ERROR \<equiv> - 1"
abbreviation SQL_INVALID_HANDLE :: int where "SQL_INVALID_HANDLE \<equiv> - 2"
abbreviation SQL_NEED_DATA :: int where "SQL_NEED_DATA \<equiv> 99"
abbreviation SQL_NO_DATA :: int where "SQL_NO_DATA \<equiv> 100"

abbreviation SQL_COMMIT :: int where "SQL_COMMIT \<equiv> 0"
abbreviation SQL_ROLLBACK :: int where "SQL_ROLLBACK \<equiv> 1"

abbreviation SQL_ATTR_QUERY_TIMEOUT :: int where "SQL_ATTR_QUERY_TIMEOUT \<equiv> 0"
abbreviation SQL_ATTR_AUTOCOMMIT :: int where "SQL_ATTR_AUTOCOMMIT \<equiv> 102"
abbreviation SQL_CLOSE :: int where "SQL_CLOSE \<equiv> 0"
abbreviation SQL_RESET_PARAMS :: int where "SQL_RESET_PARAMS \<equiv> 3"
abbreviation SQL_PARAM_INPUT :: int where "SQL_PARAM_INPUT \<equiv> 1"
abbreviation SQL_PARAM_INPUT_OUTPUT :: int where "SQL_PARAM_INPUT_OUTPUT \<equiv> 2"
abbreviation SQL_PARAM_OUTPUT :: int where "SQL_PARAM_OUTPUT \<equiv> 4"
abbreviation SQL_ATTR_PARAM_BIND_TYPE :: int where "SQL_ATTR_PARAM_BIND_TYPE \<equiv> 18"
abbreviation SQL_ATTR_PARAMSET_SIZE :: int where "SQL_ATTR_PARAMSET_SIZE \<equiv> 22"
abbreviation SQL_PARAM_BIND_BY_COLUMN :: int where "SQL_PARAM_BIND_BY_COLUMN \<equiv> 0"
abbreviation SQL_NULL_DATA :: int where "SQL_NULL_DATA \<equiv> - 1"
abbreviation SQL_NTS :: int where "SQL_NTS \<equiv> - 3"
abbreviation SQL_IS_UINTEGER :: int where "SQL_IS_UINTEGER \<equiv> - 5"
abbreviation SQL_C_BINARY :: int where "SQL_C_BINARY \<equiv> - 2"
abbreviation SQL_LONGVARBINARY :: int where "SQL_LONGVARBINARY \<equiv> - 4"
abbreviation SQL_C_WCHAR :: int where "SQL_C_WCHAR \<equiv> - 8"
abbreviation SQL_WVARCHAR :: int where "SQL_WVARCHAR \<equiv> - 9"
abbreviation SQL_WLONGVARCHAR :: int where "SQL_WLONGVARCHAR \<equiv> - 10"
abbreviation SQL_DESC_TYPE_NAME :: int where "SQL_DESC_TYPE_NAME \<equiv> 14"
abbreviation QUERY_TIMEOUT :: int where "QUERY_TIMEOUT \<equiv> 120"

abbreviation SQL_STATE_DATA_TRUNCATED :: string where "SQL_STATE_DATA_TRUNCATED \<equiv> ''01004''"
abbreviation SQL_STATE_CONNECTION_NOT_OPEN :: string where "SQL_STATE_CONNECTION_NOT_OPEN \<equiv> ''08003''"
abbreviation SQL_STATE_INVALID_TRANSACTION_STATE :: string
  where "SQL_STATE_INVALID_TRANSACTION_STATE \<equiv> ''25000''"

abbreviation SMALL_BUFFER_SIZE :: nat where "SMALL_BUFFER_SIZE \<equiv> 4096"
abbreviation LARGE_BUFFER_SIZE :: nat where "LARGE_BUFFER_SIZE \<equiv> 1048576"

section \<open>Buffers and text\<close>

text \<open>
  The module is modelled as it runs on Unix/Linux under Python 3 (the \<^verbatim>\<open>else\<close> branch of the
  platform switch): a buffer is a \<^verbatim>\<open>ctypes\<close> array of bytes. A \<^typ>\<open>char\<close> of HOL is one byte,
  so a buffer is a \<^typ>\<open>string\<close>. Python text is represented by its UTF-8 encoding, which is
  one-to-one on text; decoding is then the identity on well-formed byte sequences and fails
  on all others, and concatenating text is concatenating the encodings.
\<close>

abbreviation NUL :: char where "NUL \<equiv> CHR 0x00"

definition createBuffer :: "nat \<Rightarrow> string" where
  "createBuffer l = replicate l NUL"

definition byte_in :: "nat \<Rightarrow> nat \<Rightarrow> char \<Rightarrow> bool" where
  "byte_in lo hi c = (lo \<le> of_char c \<and> (of_char c :: nat) \<le> hi)"

text \<open>The well-formed UTF-8 byte sequences, as the strict decoder of Python 3 accepts them.\<close>

fun valid_utf8 :: "string \<Rightarrow> bool" where
  "valid_utf8 [] = True"
| "valid_utf8 (b # bs) =
     (if byte_in 0x00 0x7F b then valid_utf8 bs
      else if byte_in 0xC2 0xDF b then
        (case bs of c1 # r \<Rightarrow> byte_in 0x80 0xBF c1 \<and> valid_utf8 r | _ \<Rightarrow> False)
      else if byte_in 0xE0 0xEF b then
        (case bs of
           c1 # c2 # r \<Rightarrow>
             (if of_char b = (0xE0 :: nat) then byte_in 0xA0 0xBF c1
              else if of_char b = (0xED :: nat) then byte_in 0x80 0x9F c1
              else byte_in 0x80 0xBF c1) \<and>
             byte_in 0x80 0xBF c2 \<and> valid_utf8 r
         | _ \<Rightarrow> False)
      else if byte_in 0xF0 0xF4 b then
        (case bs of
           c1 # c2 # c3 # r \<Rightarrow>
             (if of_char b = (0xF0 :: nat) then byte_in 0x90 0xBF c1
              else if of_char b = (0xF4 :: nat) then byte_in 0x80 0x8F c1
              else byte_in 0x80 0xBF c1) \<and>
             byte_in 0x80 0xBF c2 \<and> byte_in 0x80 0xBF c3 \<and> valid_utf8 r
         | _ \<Rightarrow> False)
      else False)"

datatype error =
    InterfaceError string "int list"
      \<comment> \<open>the error code, and the numbers its message is formatted with\<close>
  | DatabaseError int string string
      \<comment> \<open>native error code, message, SQLSTATE\<close>
  | UnicodeDecodeError
  | ValueError
  | IndexError
  | TypeError
  | AttributeError

text \<open>\<^verbatim>\<open>_outputStr = lambda s : unicode(s.raw.partition(b'\00')[0], 'utf8')\<close>\<close>

definition outputStr :: "string \<Rightarrow> error + string" where
  "outputStr s =
     (let b = takeWhile (\<lambda>c. c \<noteq> NUL) s
      in if valid_utf8 b then Inr b else Inl UnicodeDecodeError)"

text \<open>
  What a native call leaves in a buffer it was handed: the bytes the driver stores replace
  the front of the buffer, the rest keeps its old contents, and the buffer keeps its size.
\<close>

definition store :: "string \<Rightarrow> string \<Rightarrow> string" where
  "store old new = take (length old) new @ drop (length new) old"

section \<open>The native call boundary\<close>

text \<open>
  A Python handle variable: \<open>Some p\<close> is a \<^verbatim>\<open>c_void_p\<close> holding the address \<open>p\<close> (0 is the
  null pointer), \<open>None\<close> is Python's \<^verbatim>\<open>None\<close>.
\<close>

type_synonym handle = "nat option"

datatype call =
    SQLGetDiagRecW int handle nat nat
      \<comment> \<open>handle type, handle, record number, length of the message buffer\<close>
  | SQLAllocHandle int handle
  | SQLFreeHandle int handle
  | SQLDisconnect handle
  | SQLEndTran int handle int
  | SQLSetConnectAttr handle int int
  | SQLSetStmtAttr handle int int
  | SQLFreeStmt handle int
  | SQLPrepareW handle string
  | SQLExecDirectW handle string
  | SQLNumParams handle
  | SQLDescribeParam handle nat
  | SQLBindParameter handle nat int int int nat "(nat \<times> string) option" nat "int list"
      \<comment> \<open>statement, parameter number, input/output type, value type, parameter type, column
         size, the buffer (its address and what it holds), buffer size, length indicators\<close>
  | SQLExecute handle
  | SQLNumResultCols handle
  | SQLRowCount handle
  | SQLDescribeColW handle nat nat
  | SQLColAttributeW handle nat int nat
  | SQLFetch handle
  | SQLGetData handle nat int nat
      \<comment> \<open>statement, column, C data type, length of the buffer\<close>
  | SQLMoreResults handle

text \<open>
  What one native call hands back: its return code and the bytes and numbers it stored
  through the pointers it was given. Every call reads the fields it passed pointers for.
\<close>

record reply =
  rc :: int
  r_state :: string       \<comment> \<open>stored in the SQLSTATE buffer\<close>
  r_native :: "32 word"   \<comment> \<open>stored in a \<^verbatim>\<open>SQLINTEGER\<close>\<close>
  r_buf :: string         \<comment> \<open>stored in the text or data buffer\<close>
  r_small :: "16 word"    \<comment> \<open>stored in a \<^verbatim>\<open>SQLSMALLINT\<close>\<close>
  r_len :: int            \<comment> \<open>stored in a \<^verbatim>\<open>SQLLEN\<close>, read as a signed number\<close>
  r_handle :: nat         \<comment> \<open>stored in a handle variable\<close>
  r_small2 :: "16 word"   \<comment> \<open>stored in a second \<^verbatim>\<open>SQLSMALLINT\<close>\<close>
  r_small3 :: "16 word"   \<comment> \<open>stored in a third \<^verbatim>\<open>SQLSMALLINT\<close>\<close>
  r_out :: "(nat \<times> string) list"
    \<comment> \<open>stored in buffers bound earlier: the address of each and the bytes stored there\<close>

text \<open>
  The driver is any function from the calls made so far, the current one last, to the
  reply of the current call. Nothing is assumed about it.
\<close>

type_synonym driver = "call list \<Rightarrow> reply"

text \<open>
  The objects of the module, on a heap, each named by a reference. \<^verbatim>\<open>connections\<close> is the
  module's global list, and \<^verbatim>\<open>cursors\<close> the list a connection keeps of its cursors.
\<close>

datatype pyval = PyNone | PyInt int | PyStr string | PyBytes string

text \<open>A row of \<^verbatim>\<open>description\<close>: name, type code, column size, decimal digits, nullable.\<close>

type_synonym column = "string \<times> string \<times> int \<times> int \<times> int"

text \<open>
  The generator \<^verbatim>\<open>rowIterator\<close> a cursor holds: none yet, one that is running (with its
  working buffer \<^verbatim>\<open>buf\<close>), or one that has finished.
\<close>

datatype iter = NoIterator | Iterator string | Exhausted

record connection =
  hDbc :: handle
  cursorCount :: nat
  sessionno :: pyval
  cursors :: "nat list"
  dbType :: string

record cursor =
  hStmt :: handle
  num :: nat
  connection_of :: nat
  description :: "column list option"
  rowcount :: int
  columns :: "string \<rightharpoonup> nat"
  types :: "(string \<times> string) list"
  iterator :: iter

text \<open>
  An \<^verbatim>\<open>OutParam\<close> or \<^verbatim>\<open>InOutParam\<close> object. Its resolver, once registered, is the closure
  \<^verbatim>\<open>lambda: _outputStr(param)\<close>: a Python closure holds the variable \<^verbatim>\<open>param\<close> of the call of
  \<^verbatim>\<open>executemany\<close> that made it, not the value the variable had then. The variable is a cell
  of the heap, and \<open>valueFunc\<close> names the cell.
\<close>

record outparam =
  size' :: "int option"
  inValue :: "string option"
  valueFunc :: "nat option"

text \<open>What the variable \<^verbatim>\<open>param\<close> holds: \<^verbatim>\<open>None\<close>, a character buffer, or a byte array.\<close>

datatype cbuf = CNone | CBuf nat | CBytes nat

text \<open>
  A parameter value. A value that is neither \<^verbatim>\<open>None\<close> nor a \<^verbatim>\<open>bytearray\<close> nor an output parameter
  is bound as text: \<open>PText\<close> holds \<^verbatim>\<open>(s if util.isString(s) else str(s)).encode('utf8')\<close>.
\<close>

datatype param = PNone | PText string | PBytes string | POut nat | PInOut nat

record world =
  trace :: "call list"
  connections :: "nat list"
  conns :: "nat \<Rightarrow> connection"
  curs :: "nat \<Rightarrow> cursor"
  outparams :: "nat \<Rightarrow> outparam"
  bufs :: "nat \<Rightarrow> string"
  cells :: "nat \<Rightarrow> cbuf"
  next_ref :: nat

text \<open>
  A computation runs in a world, and either raises or returns; \<open>None\<close> is a computation
  that never returns.
\<close>

type_synonym ('w, 'a) io = "'w \<Rightarrow> ((error + 'a) \<times> 'w) option"

definition ret :: "'a \<Rightarrow> ('w, 'a) io" where
  "ret x = (\<lambda>w. Some (Inr x, w))"

definition raise :: "error \<Rightarrow> ('w, 'a) io" where
  "raise e = (\<lambda>w. Some (Inl e, w))"

definition bindIO :: "('w, 'a) io \<Rightarrow> ('a \<Rightarrow> ('w, 'b) io) \<Rightarrow> ('w, 'b) io" where
  "bindIO m f = (\<lambda>w. case m w of
      None \<Rightarrow> None
    | Some (Inl e, w') \<Rightarrow> Some (Inl e, w')
    | Some (Inr x, w') \<Rightarrow> f x w')"

definition native :: "driver \<Rightarrow> call \<Rightarrow> (world, reply) io" where
  "native drv c = (\<lambda>w. Some (Inr (drv (trace w @ [c])), w\<lparr>trace := trace w @ [c]\<rparr>))"

definition getw :: "(world \<Rightarrow> 'a) \<Rightarrow> (world, 'a) io" where
  "getw f = (\<lambda>w. Some (Inr (f w), w))"

definition modw :: "(world \<Rightarrow> world) \<Rightarrow> (world, unit) io" where
  "modw f = (\<lambda>w. Some (Inr (), f w))"

section \<open>Diagnostics\<close>

type_synonym diag = "string \<times> string \<times> int"

text \<open>
  \<^verbatim>\<open>getDiagnosticInfo\<close>: the loop state is the list built so far, the record number, the
  SQLSTATE buffer and the message buffer.
\<close>

partial_function (option) getDiagnosticInfo_loop ::
  "driver \<Rightarrow> handle \<Rightarrow> int \<Rightarrow> diag list \<Rightarrow> nat \<Rightarrow> string \<Rightarrow> string \<Rightarrow>
   world \<Rightarrow> ((error + diag list) \<times> world) option"
where
  "getDiagnosticInfo_loop drv h handleType info infoNumber sqlState messageBuffer w =
     (let c = SQLGetDiagRecW handleType h infoNumber (length messageBuffer);
          w' = w\<lparr>trace := trace w @ [c]\<rparr>;
          r = drv (trace w');
          sqlState' = store sqlState (r_state r);
          messageBuffer' = store messageBuffer (r_buf r);
          messageLength = sint (r_small r)
      in if rc r = SQL_SUCCESS_WITH_INFO \<and> messageLength > int (length messageBuffer') then
           getDiagnosticInfo_loop drv h handleType info infoNumber sqlState'
             (createBuffer (nat messageLength)) w'
         else if rc r = SQL_SUCCESS \<or> rc r = SQL_SUCCESS_WITH_INFO then
           (case outputStr sqlState' of
              Inl e \<Rightarrow> Some (Inl e, w')
            | Inr s \<Rightarrow>
               (case outputStr messageBuffer' of
                  Inl e \<Rightarrow> Some (Inl e, w')
                | Inr m \<Rightarrow>
                    getDiagnosticInfo_loop drv h handleType
                      (info @ [(s, m, \<bar>sint (r_native r)\<bar>)]) (infoNumber + 1)
                      sqlState' messageBuffer' w'))
         else if rc r = SQL_NO_DATA then Some (Inr info, w')
         else if rc r = SQL_INVALID_HANDLE then
           Some (Inl (InterfaceError ''SQL_INVALID_HANDLE'' []), w')
         else if rc r = SQL_ERROR then Some (Inl (InterfaceError ''SQL_ERROR'' []), w')
         else Some (Inl (InterfaceError ''UNKNOWN_RETURN_CODE'' [rc r]), w'))"

definition getDiagnosticInfo ::
  "driver \<Rightarrow> handle \<Rightarrow> int \<Rightarrow> (world, diag list) io" where
  "getDiagnosticInfo drv h handleType =
     getDiagnosticInfo_loop drv h handleType [] 1 (createBuffer 6)
       (createBuffer SMALL_BUFFER_SIZE)"

text \<open>
  The \<^verbatim>\<open>for i in info\<close> loop of \<^verbatim>\<open>checkStatus\<close>, with the list \<^verbatim>\<open>sqlState\<close> built so far:
  the \<^verbatim>\<open>raise\<close> and the \<^verbatim>\<open>break\<close> both leave it.
\<close>

fun checkInfo :: "int \<Rightarrow> string list option \<Rightarrow> diag list \<Rightarrow> string list \<Rightarrow> error + string list"
where
  "checkInfo rc' ignore [] sqlState = Inr sqlState"
| "checkInfo rc' ignore (i # info) sqlState =
     (let sqlState' = sqlState @ [fst i]
      in if rc' = SQL_SUCCESS_WITH_INFO then checkInfo rc' ignore info sqlState'
         else if (ignore = None \<or> ignore = Some []) \<or> fst i \<notin> set (the ignore) then
           Inl (DatabaseError (snd (snd i)) (''['' @ fst i @ ''] '' @ fst (snd i)) (fst i))
         else Inr sqlState')"

text \<open>
  \<^verbatim>\<open>checkStatus\<close>. A handle argument that is left out keeps its default, the number 0, and
  is \<open>None\<close> here; a handle that is passed is a pointer object or Python's \<^verbatim>\<open>None\<close>, both
  of which differ from the number 0. \<open>diagHandle\<close> is the choice of the handle whose
  diagnostics are read: the statement's if one was passed, else the connection's, else the
  environment's.
\<close>

definition diagHandle :: "handle option \<Rightarrow> handle option \<Rightarrow> handle option \<Rightarrow> handle \<times> int" where
  "diagHandle envH dbcH stmtH =
     (case stmtH of
        Some h \<Rightarrow> (h, SQL_HANDLE_STMT)
      | None \<Rightarrow>
          (case dbcH of
             Some h \<Rightarrow> (h, SQL_HANDLE_DBC)
           | None \<Rightarrow> (case envH of Some h \<Rightarrow> (h, SQL_HANDLE_ENV) | None \<Rightarrow> (Some 0, SQL_HANDLE_ENV))))"

definition checkStatus ::
  "driver \<Rightarrow> int \<Rightarrow> handle option \<Rightarrow> handle option \<Rightarrow> handle option \<Rightarrow> string list option \<Rightarrow>
   (world, string list) io" where
  "checkStatus drv rc' envH dbcH stmtH ignore =
     (if rc' \<noteq> SQL_SUCCESS \<and> rc' \<noteq> SQL_NO_DATA then
        bindIO
          (getDiagnosticInfo drv (fst (diagHandle envH dbcH stmtH)) (snd (diagHandle envH dbcH stmtH)))
          (\<lambda>info. case checkInfo rc' ignore info [] of
                     Inl e \<Rightarrow> raise e
                   | Inr sqlState \<Rightarrow> ret sqlState)
      else ret [])"

section \<open>Closing cursors and connections\<close>

text \<open>The truth value of a handle variable: a null pointer and \<^verbatim>\<open>None\<close> are false.\<close>

definition truthy :: "handle \<Rightarrow> bool" where
  "truthy h = (case h of None \<Rightarrow> False | Some p \<Rightarrow> p \<noteq> 0)"

text \<open>\<^verbatim>\<open>list.remove\<close> raises when the element is not in the list.\<close>

definition list_remove :: "'a \<Rightarrow> 'a list \<Rightarrow> error + 'a list" where
  "list_remove x xs = (if x \<in> set xs then Inr (remove1 x xs) else Inl ValueError)"

definition cursor_close :: "driver \<Rightarrow> nat \<Rightarrow> (world, unit) io" where
  "cursor_close drv self = (\<lambda>w.
     let h = hStmt (curs w self) in
     if truthy h then
       bindIO (native drv (SQLFreeHandle SQL_HANDLE_STMT h)) (\<lambda>r.
       bindIO (checkStatus drv (rc r) None None (Some h) None) (\<lambda>_.
       bindIO (getw (\<lambda>w. connection_of (curs w self))) (\<lambda>c.
       bindIO (getw (\<lambda>w. list_remove self (cursors (conns w c)))) (\<lambda>l.
       case l of
         Inl e \<Rightarrow> raise e
       | Inr cs \<Rightarrow>
           modw (\<lambda>w. w\<lparr>conns := (conns w)(c := (conns w c)\<lparr>cursors := cs\<rparr>),
                         curs := (curs w)(self := (curs w self)\<lparr>hStmt := None\<rparr>)\<rparr>))))) w
     else ret () w)"

text \<open>\<^verbatim>\<open>for cursor in list(self.cursors): cursor.close()\<close>\<close>

fun close_cursors :: "driver \<Rightarrow> nat list \<Rightarrow> (world, unit) io" where
  "close_cursors drv [] = ret ()"
| "close_cursors drv (c # cs) = bindIO (cursor_close drv c) (\<lambda>_. close_cursors drv cs)"

definition conn_close :: "driver \<Rightarrow> nat \<Rightarrow> (world, unit) io" where
  "conn_close drv self = (\<lambda>w.
     let h = hDbc (conns w self) in
     if truthy h then
       bindIO (close_cursors drv (cursors (conns w self))) (\<lambda>_.
       bindIO (native drv (SQLDisconnect h)) (\<lambda>r.
       bindIO (checkStatus drv (rc r) None (Some h) None
                 (Some [SQL_STATE_CONNECTION_NOT_OPEN, SQL_STATE_INVALID_TRANSACTION_STATE]))
         (\<lambda>sqlState.
       bindIO
         (if SQL_STATE_INVALID_TRANSACTION_STATE \<in> set sqlState then
            bindIO (native drv (SQLEndTran SQL_HANDLE_DBC h SQL_ROLLBACK)) (\<lambda>r.
            bindIO (checkStatus drv (rc r) None (Some h) None None) (\<lambda>_.
            bindIO (native drv (SQLDisconnect h)) (\<lambda>r.
            bindIO (checkStatus drv (rc r) None (Some h) None None) (\<lambda>_. ret ()))))
          else ret ()) (\<lambda>_.
       bindIO (native drv (SQLFreeHandle SQL_HANDLE_DBC h)) (\<lambda>r.
       bindIO
         (if rc r \<noteq> SQL_INVALID_HANDLE then
            bindIO (checkStatus drv (rc r) None (Some h) None None) (\<lambda>_. ret ())
          else ret ()) (\<lambda>_.
       bindIO (getw (\<lambda>w. list_remove self (connections w))) (\<lambda>l.
       case l of
         Inl e \<Rightarrow> raise e
       | Inr cs \<Rightarrow>
           modw (\<lambda>w. w\<lparr>connections := cs,
                         conns := (conns w)(self := (conns w self)\<lparr>hDbc := None\<rparr>)\<rparr>)))))))) w
     else ret () w)"

section \<open>Binding parameters and executing\<close>

text \<open>
  \<^verbatim>\<open>_inputStr(s, l)\<close>, with \<^verbatim>\<open>ctypes.create_string_buffer\<close> written out: without a size the
  buffer holds the bytes and a terminator; with a size it has that size, and the call raises
  when the size is negative or the bytes do not fit.
\<close>

definition inputStr :: "string option \<Rightarrow> int option \<Rightarrow> error + string option" where
  "inputStr s l =
     (case s of
        None \<Rightarrow> Inr None
      | Some b \<Rightarrow>
          (case l of
             None \<Rightarrow> Inr (Some (b @ [NUL]))
           | Some n \<Rightarrow>
               if n < 0 \<or> n < int (length b) then Inl ValueError
               else Inr (Some (b @ replicate (nat n - length b) NUL))))"

text \<open>A new \<^verbatim>\<open>ctypes\<close> buffer with the given contents; its address is returned.\<close>

definition alloc :: "string \<Rightarrow> (world, nat) io" where
  "alloc b = (\<lambda>w. Some (Inr (next_ref w),
                 w\<lparr>bufs := (bufs w)(next_ref w := b), next_ref := Suc (next_ref w)\<rparr>))"

text \<open>The variable \<^verbatim>\<open>param\<close> of a call of \<^verbatim>\<open>executemany\<close>: a new cell.\<close>

definition new_cell :: "(world, nat) io" where
  "new_cell = (\<lambda>w. Some (Inr (next_ref w),
                 w\<lparr>cells := (cells w)(next_ref w := CNone), next_ref := Suc (next_ref w)\<rparr>))"

definition assign :: "nat \<Rightarrow> cbuf \<Rightarrow> (world, unit) io" where
  "assign cell v = modw (\<lambda>w. w\<lparr>cells := (cells w)(cell := v)\<rparr>)"

text \<open>
  Modelled from the spec: the method \<^verbatim>\<open>setValueFunc\<close> of the parameter classes, which are not
  part of this module. Output and input/output parameters "register a resolver that
  decodes the buffer's contents lazily after execution": the method keeps the closure it is given, and
  \<open>resolve\<close> calls it.
\<close>

definition setValueFunc :: "nat \<Rightarrow> nat \<Rightarrow> (world, unit) io" where
  "setValueFunc p cell =
     modw (\<lambda>w. w\<lparr>outparams := (outparams w)(p := (outparams w p)\<lparr>valueFunc := Some cell\<rparr>)\<rparr>)"

text \<open>
  Calling the closure \<^verbatim>\<open>lambda: _outputStr(param)\<close>: it reads the variable as it is now.
  \<^verbatim>\<open>_outputStr\<close> reads the attribute \<^verbatim>\<open>raw\<close>, which only a character buffer has.
\<close>

definition call_closure :: "nat \<Rightarrow> world \<Rightarrow> error + string" where
  "call_closure cell w =
     (case cells w cell of
        CBuf a \<Rightarrow> outputStr (bufs w a)
      | _ \<Rightarrow> Inl AttributeError)"

definition resolve :: "nat \<Rightarrow> world \<Rightarrow> error + string option" where
  "resolve p w =
     (case valueFunc (outparams w p) of
        None \<Rightarrow> Inr None
      | Some cell \<Rightarrow> (case call_closure cell w of Inl e \<Rightarrow> Inl e | Inr s \<Rightarrow> Inr (Some s)))"

text \<open>A call followed by \<^verbatim>\<open>checkStatus(rc, hStmt=self.hStmt, ...)\<close>.\<close>

definition stmt_call :: "driver \<Rightarrow> handle \<Rightarrow> call \<Rightarrow> (world, reply) io" where
  "stmt_call drv h c =
     bindIO (native drv c) (\<lambda>r.
     bindIO (checkStatus drv (rc r) None None (Some h) None) (\<lambda>_. ret r))"

text \<open>
  The body of \<^verbatim>\<open>for paramNum in range(0, numParams)\<close> in the per-row loop of \<^verbatim>\<open>executemany\<close>,
  for the values of the row from \<^verbatim>\<open>paramNum\<close> on, each with the data type the statement
  declared for it. \<^verbatim>\<open>valueType\<close> and \<^verbatim>\<open>paramType\<close> are set before the loop and keep what an
  earlier parameter of the row assigned.
\<close>

fun bind_params ::
  "driver \<Rightarrow> handle \<Rightarrow> nat \<Rightarrow> (param \<times> int) list \<Rightarrow> nat \<Rightarrow> int \<Rightarrow> int \<Rightarrow> (world, unit) io"
where
  "bind_params drv h cell [] paramNum valueType paramType = ret ()"
| "bind_params drv h cell ((val, dataType) # rest) paramNum valueType paramType =
     (let paramType1 = (if dataType = SQL_WLONGVARCHAR then SQL_WLONGVARCHAR else paramType)
      in
      bindIO
        (case val of
           PInOut p \<Rightarrow>
             bindIO (getw (\<lambda>w. outparams w p)) (\<lambda>ob.
             case inputStr (inValue ob)
                    (Some (case size' ob of None \<Rightarrow> int SMALL_BUFFER_SIZE | Some n \<Rightarrow> n)) of
               Inl e \<Rightarrow> raise e
             | Inr None \<Rightarrow>
                 bindIO (assign cell CNone) (\<lambda>_.
                 bindIO (setValueFunc p cell) (\<lambda>_.
                 ret (CNone, SQL_PARAM_INPUT_OUTPUT, valueType, paramType1)))
             | Inr (Some b) \<Rightarrow>
                 bindIO (alloc b) (\<lambda>a.
                 bindIO (assign cell (CBuf a)) (\<lambda>_.
                 bindIO (setValueFunc p cell) (\<lambda>_.
                 ret (CBuf a, SQL_PARAM_INPUT_OUTPUT, valueType, paramType1)))))
         | POut p \<Rightarrow>
             bindIO (getw (\<lambda>w. outparams w p)) (\<lambda>ob.
             case size' ob of
               Some n \<Rightarrow>
                 if n < 0 then raise ValueError
                 else
                   bindIO (alloc (createBuffer (nat n))) (\<lambda>a.
                   bindIO (assign cell (CBuf a)) (\<lambda>_.
                   bindIO (setValueFunc p cell) (\<lambda>_.
                   ret (CBuf a, SQL_PARAM_OUTPUT, valueType, paramType1))))
             | None \<Rightarrow>
                 bindIO (alloc (createBuffer SMALL_BUFFER_SIZE)) (\<lambda>a.
                 bindIO (assign cell (CBuf a)) (\<lambda>_.
                 bindIO (setValueFunc p cell) (\<lambda>_.
                 ret (CBuf a, SQL_PARAM_OUTPUT, valueType, paramType1)))))
         | PBytes b \<Rightarrow>
             bindIO (alloc b) (\<lambda>a.
             bindIO (assign cell (CBytes a)) (\<lambda>_.
             ret (CBytes a, SQL_PARAM_INPUT, SQL_C_BINARY, SQL_LONGVARBINARY)))
         | PText s \<Rightarrow>
             bindIO (alloc (s @ [NUL])) (\<lambda>a.
             bindIO (assign cell (CBuf a)) (\<lambda>_.
             ret (CBuf a, SQL_PARAM_INPUT, valueType, paramType1)))
         | PNone \<Rightarrow>
             bindIO (assign cell CNone) (\<lambda>_.
             ret (CNone, SQL_PARAM_INPUT, valueType, paramType1)))
        (\<lambda>(param, inputOutputType, valueType1, paramType2).
           bindIO (getw (\<lambda>w. case param of
                                 CBytes a \<Rightarrow>
                                   (Some (a, bufs w a), length (bufs w a), [int (length (bufs w a))],
                                    length (bufs w a))
                               | CBuf a \<Rightarrow>
                                   (Some (a, bufs w a), length (bufs w a), [SQL_NTS],
                                    length (bufs w a))
                               | CNone \<Rightarrow> (None, 0, [SQL_NULL_DATA], 0)))
             (\<lambda>(buffer, bufSize, lengthArray, columnSize).
           bindIO (stmt_call drv h
                     (SQLBindParameter h (paramNum + 1) inputOutputType valueType1 paramType2
                        columnSize buffer bufSize lengthArray)) (\<lambda>_.
           bind_params drv h cell rest (paramNum + 1) valueType1 paramType2))))"

text \<open>\<^verbatim>\<open>SQLExecute\<close> followed by \<^verbatim>\<open>checkStatus\<close>; the driver may store into bound buffers.\<close>

definition apply_out :: "(nat \<times> string) list \<Rightarrow> world \<Rightarrow> world" where
  "apply_out out w = w\<lparr>bufs := fold (\<lambda>(a, b) m. m(a := store (m a) b)) out (bufs w)\<rparr>"

definition sql_execute :: "driver \<Rightarrow> handle \<Rightarrow> (world, unit) io" where
  "sql_execute drv h =
     bindIO (native drv (SQLExecute h)) (\<lambda>r.
     bindIO (modw (apply_out (r_out r))) (\<lambda>_.
     bindIO (checkStatus drv (rc r) None None (Some h) None) (\<lambda>_. ret ())))"

text \<open>The loop \<^verbatim>\<open>for p in params\<close> of \<^verbatim>\<open>executemany\<close>, run when \<^verbatim>\<open>batch\<close> is false.\<close>

fun exec_rows ::
  "driver \<Rightarrow> handle \<Rightarrow> nat \<Rightarrow> int \<Rightarrow> int list \<Rightarrow> param list list \<Rightarrow> (world, unit) io"
where
  "exec_rows drv h cell numParams dataTypes [] = ret ()"
| "exec_rows drv h cell numParams dataTypes (p # ps) =
     (if int (length p) \<noteq> numParams then
        raise (InterfaceError ''PARAMS_MISMATCH'' [int (length p), numParams])
      else
        bindIO (bind_params drv h cell (zip p dataTypes) 0 SQL_C_WCHAR SQL_WVARCHAR) (\<lambda>_.
        bindIO (sql_execute drv h) (\<lambda>_.
        exec_rows drv h cell numParams dataTypes ps)))"

text \<open>
  The collaborators of the module that are not part of it: functions of \<^verbatim>\<open>util\<close>, the type
  converter, and methods of Python's text. They are parameters of the model.
\<close>

record externals =
  sqlsplit :: "string \<Rightarrow> string list"
  convertType :: "string \<Rightarrow> string \<Rightarrow> string"
  lower :: "string \<Rightarrow> string"
  objStr :: "nat \<Rightarrow> string"
    \<comment> \<open>\<^verbatim>\<open>str(val).encode('utf8')\<close> for an output parameter object\<close>
  fetchone :: "nat \<Rightarrow> (world, pyval list option) io"
  cursor_enter :: "nat \<Rightarrow> (world, nat) io"
  cursor_exit :: "nat \<Rightarrow> error option \<Rightarrow> (world, bool) io"
  OutParams :: "param list \<Rightarrow> (world, pyval list) io"

abbreviation BINARY :: string where "BINARY \<equiv> ''BINARY''"

fun join :: "string \<Rightarrow> string list \<Rightarrow> string" where
  "join sep [] = []"
| "join sep [x] = x"
| "join sep (x # y # ys) = x @ sep @ join sep (y # ys)"

definition convertLineFeeds :: "externals \<Rightarrow> string \<Rightarrow> string" where
  "convertLineFeeds ext query = join [CHR 0x0D] (sqlsplit ext query)"

text \<open>\<^verbatim>\<open>_convertParam\<close>, for a value of the batch that is not a \<^verbatim>\<open>bytearray\<close>.\<close>

fun convertParam :: "externals \<Rightarrow> param \<Rightarrow> string option" where
  "convertParam ext PNone = None"
| "convertParam ext (PText s) = Some s"
| "convertParam ext (PBytes b) = Some b"
| "convertParam ext (POut p) = Some (objStr ext p)"
| "convertParam ext (PInOut p) = Some (objStr ext p)"

text \<open>
  The first inner loop of \<^verbatim>\<open>_executeManyBatch\<close> for one parameter: over the values of the
  column, it finds \<^verbatim>\<open>valueType\<close>, \<^verbatim>\<open>paramType\<close> and \<^verbatim>\<open>maxLen\<close> and builds the list \<^verbatim>\<open>p\<close>.
\<close>

fun scan_column ::
  "externals \<Rightarrow> param list \<Rightarrow> int \<Rightarrow> int \<Rightarrow> nat \<Rightarrow> string option list \<Rightarrow>
   int \<times> int \<times> nat \<times> string option list"
where
  "scan_column ext [] valueType paramType maxLen p = (valueType, paramType, maxLen, p)"
| "scan_column ext (PBytes b # vals) valueType paramType maxLen p =
     scan_column ext vals SQL_C_BINARY SQL_LONGVARBINARY (max maxLen (length b)) (p @ [Some b])"
| "scan_column ext (v # vals) valueType paramType maxLen p =
     (let val = convertParam ext v;
          l = (case val of None \<Rightarrow> 0 | Some b \<Rightarrow> length b)
      in scan_column ext vals valueType paramType (max maxLen l) (p @ [val]))"

text \<open>Storing one element of a \<^verbatim>\<open>ctypes\<close> array: an index outside the array raises.\<close>

definition poke :: "string \<Rightarrow> nat \<Rightarrow> char \<Rightarrow> error + string" where
  "poke arr i c = (if i < length arr then Inr (arr[i := c]) else Inl IndexError)"

fun poke_all :: "string \<Rightarrow> nat \<Rightarrow> string \<Rightarrow> error + string \<times> nat" where
  "poke_all arr i [] = Inr (arr, i)"
| "poke_all arr i (c # cs) =
     (case poke arr i c of Inl e \<Rightarrow> Inl e | Inr arr' \<Rightarrow> poke_all arr' (i + 1) cs)"

text \<open>
  The second inner loop of \<^verbatim>\<open>_executeManyBatch\<close>, over the rows from \<^verbatim>\<open>paramSetNum\<close> on: it
  fills the parameter array and the length array of one parameter.
\<close>

fun fill_column ::
  "int \<Rightarrow> nat \<Rightarrow> string option list \<Rightarrow> nat \<Rightarrow> string \<Rightarrow> int list \<Rightarrow> error + string \<times> int list"
where
  "fill_column valueType maxLen [] paramSetNum arr lens = Inr (arr, lens)"
| "fill_column valueType maxLen (v # vs) paramSetNum arr lens =
     (let index = paramSetNum * maxLen in
      case v of
        Some b \<Rightarrow>
          (case poke_all arr index b of
             Inl e \<Rightarrow> Inl e
           | Inr (arr1, index1) \<Rightarrow>
               if valueType = SQL_C_BINARY then
                 fill_column valueType maxLen vs (paramSetNum + 1) arr1
                   (lens[paramSetNum := int (length b)])
               else
                 (case poke arr1 index1 NUL of
                    Inl e \<Rightarrow> Inl e
                  | Inr arr2 \<Rightarrow>
                      fill_column valueType maxLen vs (paramSetNum + 1) arr2
                        (lens[paramSetNum := SQL_NTS])))
      | None \<Rightarrow>
          (case poke arr index NUL of
             Inl e \<Rightarrow> Inl e
           | Inr arr1 \<Rightarrow>
               fill_column valueType maxLen vs (paramSetNum + 1) arr1
                 (lens[paramSetNum := SQL_NULL_DATA])))"

text \<open>The first loop of \<^verbatim>\<open>_executeManyBatch\<close>: every row is checked before anything is bound.\<close>

fun check_counts :: "param list list \<Rightarrow> int \<Rightarrow> (world, unit) io" where
  "check_counts [] numParams = ret ()"
| "check_counts (p # ps) numParams =
     (if int (length p) \<noteq> numParams then
        raise (InterfaceError ''PARAMS_MISMATCH'' [int (length p), numParams])
      else check_counts ps numParams)"

text \<open>
  The loop \<^verbatim>\<open>for paramNum in range(0, numParams)\<close> of \<^verbatim>\<open>_executeManyBatch\<close>. It runs after
  \<open>check_counts\<close>, so every row has a value at \<^verbatim>\<open>paramNum\<close>.
\<close>

fun bind_columns ::
  "driver \<Rightarrow> externals \<Rightarrow> handle \<Rightarrow> param list list \<Rightarrow> int list \<Rightarrow> nat list \<Rightarrow> (world, unit) io"
where
  "bind_columns drv ext h params dataTypes [] = ret ()"
| "bind_columns drv ext h params dataTypes (paramNum # rest) =
     (let paramSetSize = length params;
          (valueType, paramType, maxLen0, p) =
            scan_column ext (map (\<lambda>row. row ! paramNum) params) SQL_C_WCHAR
              (if dataTypes ! paramNum = SQL_WLONGVARCHAR then SQL_WLONGVARCHAR else SQL_WVARCHAR)
              0 [];
          maxLen = (if valueType = SQL_C_BINARY then maxLen0 else maxLen0 + 1);
          valueSize = maxLen
      in case fill_column valueType maxLen p 0 (createBuffer (paramSetSize * maxLen))
                (replicate paramSetSize 0) of
           Inl e \<Rightarrow> raise e
         | Inr (arr, lens) \<Rightarrow>
             bindIO (alloc arr) (\<lambda>a.
             bindIO (stmt_call drv h
                       (SQLBindParameter h (paramNum + 1) SQL_PARAM_INPUT valueType paramType
                          maxLen (Some (a, arr)) valueSize lens)) (\<lambda>_.
             bind_columns drv ext h params dataTypes rest)))"

definition executeManyBatch ::
  "driver \<Rightarrow> externals \<Rightarrow> handle \<Rightarrow> param list list \<Rightarrow> int \<Rightarrow> int list \<Rightarrow> (world, unit) io"
where
  "executeManyBatch drv ext h params numParams dataTypes =
     bindIO (stmt_call drv h
               (SQLSetStmtAttr h SQL_ATTR_PARAM_BIND_TYPE SQL_PARAM_BIND_BY_COLUMN)) (\<lambda>_.
     bindIO (stmt_call drv h
               (SQLSetStmtAttr h SQL_ATTR_PARAMSET_SIZE (int (length params)))) (\<lambda>_.
     bindIO (check_counts params numParams) (\<lambda>_.
     bindIO (bind_columns drv ext h params dataTypes [0..<nat numParams]) (\<lambda>_.
     sql_execute drv h))))"

section \<open>Results\<close>

text \<open>
  One column of a row, in \<^verbatim>\<open>rowIterator\<close>. The loop
  \<^verbatim>\<open>while SQL_STATE_DATA_TRUNCATED in sqlState\<close> first: \<^verbatim>\<open>val\<close> is the list of parts read so far.
\<close>

partial_function (option) text_parts ::
  "driver \<Rightarrow> handle \<Rightarrow> nat \<Rightarrow> string \<Rightarrow> string list \<Rightarrow> string list \<Rightarrow> world \<Rightarrow>
   ((error + string list \<times> string) \<times> world) option"
where
  "text_parts drv h col buf val sqlState w =
     (if SQL_STATE_DATA_TRUNCATED \<in> set sqlState then
        (let w1 = w\<lparr>trace := trace w @ [SQLGetData h col SQL_C_WCHAR (length buf)]\<rparr>;
             r = drv (trace w1);
             buf1 = store buf (r_buf r)
         in case checkStatus drv (rc r) None None (Some h) None w1 of
              None \<Rightarrow> None
            | Some (Inl e, w2) \<Rightarrow> Some (Inl e, w2)
            | Some (Inr sqlState1, w2) \<Rightarrow>
                (case outputStr buf1 of
                   Inl e \<Rightarrow> Some (Inl e, w2)
                 | Inr s \<Rightarrow> text_parts drv h col buf1 (val @ [s]) sqlState1 w2))
      else Some (Inr (val, buf), w))"

definition get_column ::
  "driver \<Rightarrow> handle \<Rightarrow> nat \<Rightarrow> bool \<Rightarrow> string \<Rightarrow> (world, pyval \<times> string) io" where
  "get_column drv h col binaryData buf =
     (let dataType = (if binaryData then SQL_C_BINARY else SQL_C_WCHAR);
          bufSize = length buf
      in
      bindIO (native drv (SQLGetData h col dataType bufSize)) (\<lambda>r.
      bindIO (checkStatus drv (rc r) None None (Some h) None) (\<lambda>sqlState.
      let buf1 = store buf (r_buf r); len = r_len r in
      if len \<noteq> SQL_NULL_DATA then
        if SQL_STATE_DATA_TRUNCATED \<in> set sqlState then
          if binaryData then
            if len < 0 then raise ValueError
            else
              (let val = buf1 @ drop bufSize (replicate (nat len) NUL);
                   newBufSize = length val - bufSize
               in
               bindIO (native drv (SQLGetData h col dataType newBufSize)) (\<lambda>r2.
               bindIO (checkStatus drv (rc r2) None None (Some h) None) (\<lambda>_.
               ret (PyBytes (take bufSize val @ store (drop bufSize val) (r_buf r2)), buf1))))
          else
            (case outputStr buf1 of
               Inl e \<Rightarrow> raise e
             | Inr s \<Rightarrow>
                 bindIO (text_parts drv h col buf1 [s] sqlState) (\<lambda>(val, buf2).
                 ret (PyStr (concat val), buf2)))
        else
          if binaryData then
            if len < 0 \<or> int bufSize < len then raise ValueError
            else ret (PyBytes (take (nat len) buf1), buf1)
          else
            (case outputStr buf1 of
               Inl e \<Rightarrow> raise e
             | Inr s \<Rightarrow> ret (PyStr s, buf1))
      else ret (PyNone, buf1))))"

text \<open>The loop \<^verbatim>\<open>for col in range(1, len(cursor.description) + 1)\<close>.\<close>

fun get_columns ::
  "driver \<Rightarrow> handle \<Rightarrow> column list \<Rightarrow> nat \<Rightarrow> string \<Rightarrow> pyval list \<Rightarrow>
   (world, pyval list \<times> string) io"
where
  "get_columns drv h [] col buf values' = ret (values', buf)"
| "get_columns drv h (d # ds) col buf values' =
     bindIO (get_column drv h col (fst (snd d) = BINARY) buf) (\<lambda>(val, buf1).
     get_columns drv h ds (col + 1) buf1 (values' @ [val]))"

text \<open>
  A step of the generator \<^verbatim>\<open>rowIterator\<close>, from the top of \<^verbatim>\<open>while True\<close> to the next
  \<^verbatim>\<open>yield\<close>: the next row, or \<open>None\<close> when the generator ends. A generator that raises has
  ended.
\<close>

definition set_iterator :: "nat \<Rightarrow> iter \<Rightarrow> (world, unit) io" where
  "set_iterator self it = modw (\<lambda>w. w\<lparr>curs := (curs w)(self := (curs w self)\<lparr>iterator := it\<rparr>)\<rparr>)"

definition rowIterator_next :: "driver \<Rightarrow> nat \<Rightarrow> (world, pyval list option) io" where
  "rowIterator_next drv self = (\<lambda>w.
     case iterator (curs w self) of
       Iterator buf \<Rightarrow>
         (bindIO (set_iterator self Exhausted) (\<lambda>_.
          bindIO (getw (\<lambda>w. hStmt (curs w self))) (\<lambda>h.
          bindIO (native drv (SQLFetch h)) (\<lambda>r.
          bindIO (checkStatus drv (rc r) None None (Some h) None) (\<lambda>_.
          if rc r = SQL_NO_DATA then ret None
          else
            bindIO (getw (\<lambda>w. description (curs w self))) (\<lambda>d.
            case d of
              None \<Rightarrow> raise TypeError
            | Some ds \<Rightarrow>
                bindIO (get_columns drv h ds 1 buf []) (\<lambda>(values', buf1).
                bindIO (set_iterator self (Iterator buf1)) (\<lambda>_.
                ret (Some values'))))))))) w
     | _ \<Rightarrow> ret None w)"

text \<open>The loop \<^verbatim>\<open>for col in range(0, columnCount.value)\<close> of \<^verbatim>\<open>_handleResults\<close>.\<close>

fun describe_cols ::
  "driver \<Rightarrow> externals \<Rightarrow> nat \<Rightarrow> handle \<Rightarrow> nat list \<Rightarrow> string \<Rightarrow> (world, unit) io"
where
  "describe_cols drv ext self h [] nameBuf = ret ()"
| "describe_cols drv ext self h (col # rest) nameBuf =
     bindIO (native drv (SQLDescribeColW h (col + 1) (length nameBuf))) (\<lambda>r.
     let nameBuf1 = store nameBuf (r_buf r) in
     bindIO (checkStatus drv (rc r) None None (Some h) None) (\<lambda>_.
     case outputStr nameBuf1 of
       Inl e \<Rightarrow> raise e
     | Inr columnName \<Rightarrow>
         bindIO (native drv (SQLColAttributeW h (col + 1) SQL_DESC_TYPE_NAME (length nameBuf1)))
           (\<lambda>r2.
         let nameBuf2 = store nameBuf1 (r_buf r2) in
         bindIO (checkStatus drv (rc r) None None (Some h) None) (\<lambda>_.
         case outputStr nameBuf2 of
           Inl e \<Rightarrow> raise e
         | Inr typeName \<Rightarrow>
             bindIO (modw (\<lambda>w.
               let c = curs w self;
                   typeCode = convertType ext (dbType (conns w (connection_of c))) typeName
               in w\<lparr>curs := (curs w)(self := c
                    \<lparr>columns := (columns c)(lower ext columnName \<mapsto> col),
                     types := types c @ [(typeName, typeCode)],
                     description := Some (the (description c) @
                       [(columnName, typeCode, r_len r, sint (r_small2 r), sint (r_small3 r))])\<rparr>)\<rparr>))
               (\<lambda>_. describe_cols drv ext self h rest nameBuf2)))))"

definition handleResults :: "driver \<Rightarrow> externals \<Rightarrow> nat \<Rightarrow> (world, unit) io" where
  "handleResults drv ext self =
     bindIO (modw (\<lambda>w. w\<lparr>curs := (curs w)(self := (curs w self)
               \<lparr>description := None, rowcount := - 1, columns := Map.empty, types := []\<rparr>)\<rparr>)) (\<lambda>_.
     bindIO (getw (\<lambda>w. hStmt (curs w self))) (\<lambda>h.
     bindIO (stmt_call drv h (SQLNumResultCols h)) (\<lambda>r1.
     bindIO (stmt_call drv h (SQLRowCount h)) (\<lambda>r2.
     bindIO (modw (\<lambda>w. w\<lparr>curs := (curs w)(self := (curs w self)\<lparr>rowcount := r_len r2\<rparr>)\<rparr>)) (\<lambda>_.
     if sint (r_small r1) > 0 then
       bindIO (modw (\<lambda>w. w\<lparr>curs := (curs w)(self := (curs w self)\<lparr>description := Some []\<rparr>)\<rparr>))
         (\<lambda>_.
       bindIO (describe_cols drv ext self h [0..<nat (sint (r_small r1))]
                 (createBuffer SMALL_BUFFER_SIZE)) (\<lambda>_.
       set_iterator self (Iterator (createBuffer LARGE_BUFFER_SIZE))))
     else ret ())))))"

section \<open>Executing statements\<close>

definition free :: "driver \<Rightarrow> handle \<Rightarrow> (world, unit) io" where
  "free drv h =
     bindIO (stmt_call drv h (SQLFreeStmt h SQL_CLOSE)) (\<lambda>_.
     bindIO (stmt_call drv h (SQLFreeStmt h SQL_RESET_PARAMS)) (\<lambda>_. ret ()))"

definition setQueryTimeout :: "driver \<Rightarrow> handle \<Rightarrow> int \<Rightarrow> (world, unit) io" where
  "setQueryTimeout drv h queryTimeout =
     bindIO (stmt_call drv h (SQLSetStmtAttr h SQL_ATTR_QUERY_TIMEOUT queryTimeout)) (\<lambda>_. ret ())"

fun describe_params :: "driver \<Rightarrow> handle \<Rightarrow> nat list \<Rightarrow> int list \<Rightarrow> (world, int list) io" where
  "describe_params drv h [] dataTypes = ret dataTypes"
| "describe_params drv h (paramNum # rest) dataTypes =
     bindIO (stmt_call drv h (SQLDescribeParam h (paramNum + 1))) (\<lambda>r.
     describe_params drv h rest (dataTypes @ [sint (r_small r)]))"

definition executemany ::
  "driver \<Rightarrow> externals \<Rightarrow> nat \<Rightarrow> string \<Rightarrow> param list list \<Rightarrow> bool \<Rightarrow> int \<Rightarrow> (world, nat) io"
where
  "executemany drv ext self query params batch queryTimeout =
     bindIO new_cell (\<lambda>cell.
     bindIO (getw (\<lambda>w. hStmt (curs w self))) (\<lambda>h.
     bindIO (free drv h) (\<lambda>_.
     bindIO (stmt_call drv h (SQLPrepareW h (convertLineFeeds ext query @ [NUL]))) (\<lambda>_.
     bindIO (setQueryTimeout drv h queryTimeout) (\<lambda>_.
     bindIO (stmt_call drv h (SQLNumParams h)) (\<lambda>r.
     let numParams = sint (r_small r) in
     bindIO (describe_params drv h [0..<nat numParams] []) (\<lambda>dataTypes.
     bindIO
       (if batch then executeManyBatch drv ext h params numParams dataTypes
        else
          bindIO (stmt_call drv h (SQLSetStmtAttr h SQL_ATTR_PARAMSET_SIZE 1)) (\<lambda>_.
          exec_rows drv h cell numParams dataTypes params)) (\<lambda>_.
     bindIO (handleResults drv ext self) (\<lambda>_. ret self)))))))))"

text \<open>
  \<^verbatim>\<open>execute\<close>. With parameters it calls \<^verbatim>\<open>self.executemany (query, [ params, ], queryTimeout)\<close>:
  the third positional parameter of \<^verbatim>\<open>executemany\<close> is \<^verbatim>\<open>batch\<close>, and \<^verbatim>\<open>queryTimeout\<close> keeps
  its default 0. An empty parameter list is false, like \<^verbatim>\<open>None\<close>.
\<close>

definition execute ::
  "driver \<Rightarrow> externals \<Rightarrow> nat \<Rightarrow> string \<Rightarrow> param list \<Rightarrow> int \<Rightarrow> (world, nat) io" where
  "execute drv ext self query params queryTimeout =
     bindIO
       (if params \<noteq> [] then
          bindIO (executemany drv ext self query [params] (queryTimeout \<noteq> 0) 0) (\<lambda>_. ret ())
        else
          bindIO (getw (\<lambda>w. hStmt (curs w self))) (\<lambda>h.
          bindIO (free drv h) (\<lambda>_.
          bindIO (setQueryTimeout drv h queryTimeout) (\<lambda>_.
          bindIO (stmt_call drv h (SQLExecDirectW h (convertLineFeeds ext query @ [NUL]))) (\<lambda>_.
          ret ()))))) (\<lambda>_.
     bindIO (handleResults drv ext self) (\<lambda>_. ret self))"

definition callproc ::
  "driver \<Rightarrow> externals \<Rightarrow> nat \<Rightarrow> string \<Rightarrow> param list \<Rightarrow> int \<Rightarrow> (world, pyval list) io" where
  "callproc drv ext self procname params queryTimeout =
     (let query = ''CALL '' @ procname @ '' ('' @ join '', '' (map (\<lambda>_. ''?'') params) @ '')''
      in bindIO (execute drv ext self query params queryTimeout) (\<lambda>_. OutParams ext params))"

section \<open>Setting up a connection\<close>

text \<open>
  \<^verbatim>\<open>OdbcConnection.cursor\<close> with \<^verbatim>\<open>OdbcCursor.__init__\<close>. The constructor of the base class is
  not part of this module. Modelled from the spec: a cursor "holds last-execution metadata",
  none of it before the first execution.
\<close>

definition conn_cursor :: "driver \<Rightarrow> nat \<Rightarrow> (world, nat) io" where
  "conn_cursor drv self =
     bindIO (getw (\<lambda>w. (next_ref w, cursorCount (conns w self), hDbc (conns w self))))
       (\<lambda>(c, n, hdbc).
     bindIO (modw (\<lambda>w. w\<lparr>next_ref := Suc (next_ref w),
               curs := (curs w)(c := \<lparr>hStmt = Some 0, num = n, connection_of = self,
                 description = None, rowcount = - 1, columns = Map.empty, types = [],
                 iterator = NoIterator\<rparr>)\<rparr>)) (\<lambda>_.
     bindIO (native drv (SQLAllocHandle SQL_HANDLE_STMT hdbc)) (\<lambda>r.
     bindIO (modw (\<lambda>w. w\<lparr>curs := (curs w)(c := (curs w c)\<lparr>hStmt := Some (r_handle r)\<rparr>)\<rparr>))
       (\<lambda>_.
     bindIO (checkStatus drv (rc r) None None (Some (Some (r_handle r))) None) (\<lambda>_.
     bindIO (modw (\<lambda>w. w\<lparr>conns := (conns w)(self := (conns w self)
               \<lparr>cursors := cursors (conns w self) @ [c],
                cursorCount := cursorCount (conns w self) + 1\<rparr>)\<rparr>)) (\<lambda>_.
     ret c))))))"

definition commit :: "driver \<Rightarrow> nat \<Rightarrow> (world, unit) io" where
  "commit drv self =
     bindIO (getw (\<lambda>w. hDbc (conns w self))) (\<lambda>h.
     bindIO (native drv (SQLEndTran SQL_HANDLE_DBC h SQL_COMMIT)) (\<lambda>r.
     bindIO (checkStatus drv (rc r) None (Some h) None None) (\<lambda>_. ret ())))"

definition rollback :: "driver \<Rightarrow> nat \<Rightarrow> (world, unit) io" where
  "rollback drv self =
     bindIO (getw (\<lambda>w. hDbc (conns w self))) (\<lambda>h.
     bindIO (native drv (SQLEndTran SQL_HANDLE_DBC h SQL_ROLLBACK)) (\<lambda>r.
     bindIO (checkStatus drv (rc r) None (Some h) None None) (\<lambda>_. ret ())))"

text \<open>\<^verbatim>\<open>try: ... except Exception as e: ...\<close>\<close>

definition catchIO :: "('w, 'a) io \<Rightarrow> (error \<Rightarrow> ('w, 'a) io) \<Rightarrow> ('w, 'a) io" where
  "catchIO m handler = (\<lambda>w. case m w of
      None \<Rightarrow> None
    | Some (Inl e, w') \<Rightarrow> handler e w'
    | Some (Inr x, w') \<Rightarrow> Some (Inr x, w'))"

text \<open>
  \<^verbatim>\<open>with self.cursor() as c: ...\<close>, as Python runs it: the body runs with what \<^verbatim>\<open>__enter__\<close>
  returns; \<^verbatim>\<open>__exit__\<close> runs when the body returns and when it raises, and an exception of the
  body is raised again unless \<^verbatim>\<open>__exit__\<close> returns a true value.
\<close>

definition with_cursor ::
  "externals \<Rightarrow> nat \<Rightarrow> (nat \<Rightarrow> (world, unit) io) \<Rightarrow> (world, unit) io" where
  "with_cursor ext mgr body =
     bindIO (cursor_enter ext mgr) (\<lambda>c.
     bindIO (catchIO (bindIO (body c) (\<lambda>_. ret None)) (\<lambda>e. ret (Some e))) (\<lambda>raised.
     bindIO (cursor_exit ext mgr raised) (\<lambda>suppress.
     case raised of
       None \<Rightarrow> ret ()
     | Some e \<Rightarrow> if suppress then ret () else raise e)))"

text \<open>
  The text of \<^verbatim>\<open>u"SET QUERY_BAND = '{};' FOR SESSION".format(u";".join(...))\<close>, the query
  bands given as the pairs of the dictionary, each already text.
\<close>

definition query_band_text :: "(string \<times> string) list \<Rightarrow> string" where
  "query_band_text queryBands =
     ''SET QUERY_BAND = '' @ [CHR 0x27] @ join '';'' (map (\<lambda>(k, v). k @ ''='' @ v) queryBands) @
     '';'' @ [CHR 0x27] @ '' FOR SESSION''"

text \<open>
  The last part of \<^verbatim>\<open>OdbcConnection.__init__\<close>, after the handshake: the \<^verbatim>\<open>try\<close> block and
  its handler.
\<close>

definition setup_body ::
  "driver \<Rightarrow> externals \<Rightarrow> nat \<Rightarrow> bool \<Rightarrow> (string \<times> string) list \<Rightarrow> (world, unit) io" where
  "setup_body drv ext self autoCommit queryBands =
     bindIO (getw (\<lambda>w. hDbc (conns w self))) (\<lambda>h.
     bindIO (native drv (SQLSetConnectAttr h SQL_ATTR_AUTOCOMMIT (if autoCommit then 1 else 0)))
       (\<lambda>r.
     bindIO (checkStatus drv (rc r) None (Some h) None None) (\<lambda>_.
     bindIO (getw (\<lambda>w. dbType (conns w self))) (\<lambda>t.
     if t = ''Teradata'' then
       bindIO (conn_cursor drv self) (\<lambda>mgr.
       bindIO (with_cursor ext mgr (\<lambda>c.
         bindIO (execute drv ext c ''SELECT SESSION'' [] QUERY_TIMEOUT) (\<lambda>c1.
         bindIO (fetchone ext c1) (\<lambda>row.
         bindIO (case row of
                   None \<Rightarrow> raise TypeError
                 | Some [] \<Rightarrow> raise IndexError
                 | Some (v # _) \<Rightarrow>
                     modw (\<lambda>w. w\<lparr>conns := (conns w)(self := (conns w self)\<lparr>sessionno := v\<rparr>)\<rparr>))
           (\<lambda>_.
         if queryBands \<noteq> [] then
           bindIO (execute drv ext c (query_band_text queryBands) [] QUERY_TIMEOUT) (\<lambda>_. ret ())
         else ret ()))))) (\<lambda>_.
       commit drv self))
     else ret ()))))"

definition connect_setup ::
  "driver \<Rightarrow> externals \<Rightarrow> nat \<Rightarrow> bool \<Rightarrow> (string \<times> string) list \<Rightarrow> (world, unit) io" where
  "connect_setup drv ext self autoCommit queryBands =
     catchIO (setup_body drv ext self autoCommit queryBands)
       (\<lambda>e. bindIO (conn_close drv self) (\<lambda>_. raise e))"

section \<open>Observing a run\<close>

fun is_diag :: "call \<Rightarrow> bool" where
  "is_diag (SQLGetDiagRecW t h i n) = True"
| "is_diag _ = False"

text \<open>The calls of a trace other than the reading of diagnostics.\<close>

definition odbc_calls :: "call list \<Rightarrow> call list" where
  "odbc_calls cs = filter (\<lambda>c. \<not> is_diag c) cs"

text \<open>The calls made between two worlds of a run.\<close>

definition calls_after :: "world \<Rightarrow> world \<Rightarrow> call list" where
  "calls_after w w' = drop (length (trace w)) (trace w')"

definition only_diag :: "world \<Rightarrow> world \<Rightarrow> bool" where
  "only_diag w w' = (\<exists>ds. w' = w\<lparr>trace := trace w @ ds\<rparr> \<and> odbc_calls ds = [])"

fun is_bind_or_execute :: "call \<Rightarrow> bool" where
  "is_bind_or_execute (SQLBindParameter h n io vt pt cs b bs ls) = True"
| "is_bind_or_execute (SQLExecute h) = True"
| "is_bind_or_execute _ = False"

section \<open>Drivers and worlds of the examples\<close>

definition reply0 :: reply where
  "reply0 = \<lparr>rc = SQL_SUCCESS, r_state = [], r_native = 0, r_buf = [], r_small = 0, r_len = 0,
     r_handle = 0, r_small2 = 0, r_small3 = 0, r_out = []\<rparr>"

definition world0 :: world where
  "world0 = \<lparr>trace = [], connections = [],
     conns = (\<lambda>_. \<lparr>hDbc = None, cursorCount = 0, sessionno = PyInt 0, cursors = [],
                   dbType = ''Teradata''\<rparr>),
     curs = (\<lambda>_. \<lparr>hStmt = None, num = 0, connection_of = 0, description = None,
                  rowcount = - 1, columns = Map.empty, types = [], iterator = NoIterator\<rparr>),
     outparams = (\<lambda>_. \<lparr>size' = None, inValue = None, valueFunc = None\<rparr>),
     bufs = (\<lambda>_. []), cells = (\<lambda>_. CNone), next_ref = 0\<rparr>"

text \<open>
  A driver that holds two diagnostic records, ``connection not open'' first, and answers
  every other call with an error.
\<close>

definition two_records :: driver where
  "two_records tr =
     (case last tr of
        SQLGetDiagRecW t h i n \<Rightarrow>
          if i = 1 then
            reply0\<lparr>r_state := ''08003'' @ [NUL], r_buf := ''Connection not open'' @ [NUL],
              r_native := 5\<rparr>
          else if i = 2 then
            reply0\<lparr>r_state := ''HY000'' @ [NUL], r_buf := ''General error'' @ [NUL],
              r_native := 7\<rparr>
          else reply0\<lparr>rc := SQL_NO_DATA\<rparr>
      | _ \<Rightarrow> reply0\<lparr>rc := SQL_ERROR\<rparr>)"

text \<open>A driver that answers every call with success and stores nothing.\<close>

definition accepting :: driver where
  "accepting tr = reply0"

text \<open>
  A world with one open connection, object 1 with handle 100, and its one cursor, object 5
  with handle 200.
\<close>

definition world1 :: world where
  "world1 = world0\<lparr>connections := [1],
     conns := (conns world0)(1 := \<lparr>hDbc = Some 100, cursorCount = 1, sessionno = PyInt 0,
                                    cursors = [5], dbType = ''Teradata''\<rparr>),
     curs := (curs world0)(5 := \<lparr>hStmt = Some 200, num = 0, connection_of = 1,
                                  description = None, rowcount = - 1, columns = Map.empty,
                                  types = [], iterator = NoIterator\<rparr>)\<rparr>"

text \<open>The world after that connection and its cursor have been closed.\<close>

definition world1_closed :: world where
  "world1_closed = world0\<lparr>
     trace := [SQLFreeHandle SQL_HANDLE_STMT (Some 200), SQLDisconnect (Some 100),
               SQLFreeHandle SQL_HANDLE_DBC (Some 100)],
     conns := (conns world0)(1 := \<lparr>hDbc = None, cursorCount = 1, sessionno = PyInt 0,
                                    cursors = [], dbType = ''Teradata''\<rparr>),
     curs := (curs world0)(5 := \<lparr>hStmt = None, num = 0, connection_of = 1,
                                  description = None, rowcount = - 1, columns = Map.empty,
                                  types = [], iterator = NoIterator\<rparr>)\<rparr>"


text \<open>The world after only the cursor has been closed.\<close>

definition world1_cursor_closed :: world where
  "world1_cursor_closed = world0\<lparr>
     trace := [SQLFreeHandle SQL_HANDLE_STMT (Some 200)],
     connections := [1],
     conns := (conns world0)(1 := \<lparr>hDbc = Some 100, cursorCount = 1, sessionno = PyInt 0,
                                    cursors = [], dbType = ''Teradata''\<rparr>),
     curs := (curs world0)(5 := \<lparr>hStmt = None, num = 0, connection_of = 1,
                                  description = None, rowcount = - 1, columns = Map.empty,
                                  types = [], iterator = NoIterator\<rparr>)\<rparr>"


text \<open>
  A driver for a row of three columns: it reports the first as null, the second as the empty
  text, a terminator alone and the length 0, and the third as no bytes; every other call it
  accepts.
\<close>

definition row_driver :: driver where
  "row_driver tr =
     (case last tr of
        SQLGetData h col t n \<Rightarrow>
          if col = 1 then reply0\<lparr>r_len := SQL_NULL_DATA\<rparr>
          else if col = 2 then reply0\<lparr>r_len := 0, r_buf := [NUL]\<rparr>
          else reply0\<lparr>r_len := 0\<rparr>
      | _ \<Rightarrow> reply0)"

text \<open>Collaborators for the examples, as plain as they can be.\<close>

definition ext0 :: externals where
  "ext0 = \<lparr>sqlsplit = (\<lambda>q. [q]), convertType = (\<lambda>d t. t), lower = (\<lambda>s. s), objStr = (\<lambda>p. []),
     fetchone = (\<lambda>c. ret None), cursor_enter = (\<lambda>c. ret c), cursor_exit = (\<lambda>c e. ret False),
     OutParams = (\<lambda>ps. ret [])\<rparr>"


text \<open>
  A procedure with two parameters, called through the cursor 5 of \<open>world2\<close>: object 10 is
  \<^verbatim>\<open>InOutParam("seed", size=8)\<close> and object 11 is \<^verbatim>\<open>OutParam(size=8)\<close>. At \<^verbatim>\<open>SQLExecute\<close> the driver
  stores \<^verbatim>\<open>A\<close> in the buffer bound to parameter 1 and \<^verbatim>\<open>B\<close> in the buffer bound to
  parameter 2; it accepts every call and reports two parameters and no result columns.
\<close>

definition world2 :: world where
  "world2 = world1\<lparr>outparams := (outparams world0)
     (10 := \<lparr>size' = Some 8, inValue = Some ''seed'', valueFunc = None\<rparr>,
      11 := \<lparr>size' = Some 8, inValue = None, valueFunc = None\<rparr>)\<rparr>"

fun proc_out :: "call \<Rightarrow> (nat \<times> string) list" where
  "proc_out (SQLBindParameter h n io vt pt cs (Some (a, b)) bs ls) =
     (if io = SQL_PARAM_INPUT then []
      else if n = 1 then [(a, ''A'' @ [NUL])]
      else [(a, ''B'' @ [NUL])])"
| "proc_out _ = []"

definition proc_driver :: driver where
  "proc_driver tr =
     (case last tr of
        SQLNumParams h \<Rightarrow> reply0\<lparr>r_small := 2\<rparr>
      | SQLExecute h \<Rightarrow> reply0\<lparr>r_out := concat (map proc_out tr)\<rparr>
      | _ \<Rightarrow> reply0)"


fun is_disconnect :: "call \<Rightarrow> bool" where
  "is_disconnect (SQLDisconnect h) = True"
| "is_disconnect _ = False"

text \<open>
  A driver for a connection with an open transaction: the first \<^verbatim>\<open>SQLDisconnect\<close> fails with
  the one diagnostic record \<^verbatim>\<open>25000\<close>, and every other call succeeds.
\<close>

definition txn_driver :: driver where
  "txn_driver tr =
     (case last tr of
        SQLDisconnect h \<Rightarrow>
          if length (filter is_disconnect tr) = 1 then reply0\<lparr>rc := SQL_ERROR\<rparr> else reply0
      | SQLGetDiagRecW t h i n \<Rightarrow>
          if i = 1 then
            reply0\<lparr>r_state := ''25000'' @ [NUL], r_buf := ''Invalid transaction state'' @ [NUL]\<rparr>
          else reply0\<lparr>rc := SQL_NO_DATA\<rparr>
      | _ \<Rightarrow> reply0)"

text \<open>
  The same connection, lost during the rollback: the second \<^verbatim>\<open>SQLDisconnect\<close> fails too,
  with the one diagnostic record \<^verbatim>\<open>08003\<close>.
\<close>

definition lost_driver :: driver where
  "lost_driver tr =
     (case last tr of
        SQLDisconnect h \<Rightarrow> reply0\<lparr>rc := SQL_ERROR\<rparr>
      | SQLGetDiagRecW t h i n \<Rightarrow>
          if i = 1 then
            (if length (filter is_disconnect tr) = 1 then
               reply0\<lparr>r_state := ''25000'' @ [NUL],
                 r_buf := ''Invalid transaction state'' @ [NUL]\<rparr>
             else
               reply0\<lparr>r_state := ''08003'' @ [NUL], r_buf := ''Connection not open'' @ [NUL]\<rparr>)
          else reply0\<lparr>rc := SQL_NO_DATA\<rparr>
      | _ \<Rightarrow> reply0)"


text \<open>
  The worlds of closing \<open>world1\<close> against \<open>txn_driver\<close>: after the status check of the first
  \<^verbatim>\<open>SQLDisconnect\<close>, and at the end.
\<close>

definition world_txn_checked :: world where
  "world_txn_checked = world1_cursor_closed\<lparr>
     trace := [SQLFreeHandle SQL_HANDLE_STMT (Some 200), SQLDisconnect (Some 100),
               SQLGetDiagRecW SQL_HANDLE_DBC (Some 100) 1 SMALL_BUFFER_SIZE,
               SQLGetDiagRecW SQL_HANDLE_DBC (Some 100) 2 SMALL_BUFFER_SIZE]\<rparr>"

definition world_txn_closed :: world where
  "world_txn_closed = world1_closed\<lparr>
     trace := [SQLFreeHandle SQL_HANDLE_STMT (Some 200), SQLDisconnect (Some 100),
               SQLGetDiagRecW SQL_HANDLE_DBC (Some 100) 1 SMALL_BUFFER_SIZE,
               SQLGetDiagRecW SQL_HANDLE_DBC (Some 100) 2 SMALL_BUFFER_SIZE,
               SQLEndTran SQL_HANDLE_DBC (Some 100) SQL_ROLLBACK, SQLDisconnect (Some 100),
               SQLFreeHandle SQL_HANDLE_DBC (Some 100)]\<rparr>"


text \<open>
  A connection after the handshake: object 1 with handle 100 and no cursor yet.
\<close>

definition world_connected :: world where
  "world_connected = world0\<lparr>connections := [1],
     conns := (conns world0)(1 := \<lparr>hDbc = Some 100, cursorCount = 0, sessionno = PyInt 0,
                                    cursors = [], dbType = ''Teradata''\<rparr>)\<rparr>"

text \<open>
  Two drivers that refuse \<^verbatim>\<open>SQLSetConnectAttr\<close> with the diagnostic record \<^verbatim>\<open>HY000\<close>. The first
  accepts every other call. The second has lost the link to the server: it refuses
  \<^verbatim>\<open>SQLDisconnect\<close> as well, with the record \<^verbatim>\<open>08S01\<close>.
\<close>

definition attr_refusing :: driver where
  "attr_refusing tr =
     (case last tr of
        SQLSetConnectAttr h a v \<Rightarrow> reply0\<lparr>rc := SQL_ERROR\<rparr>
      | SQLGetDiagRecW t h i n \<Rightarrow>
          if i = 1 then
            reply0\<lparr>r_state := ''HY000'' @ [NUL], r_buf := ''General error'' @ [NUL]\<rparr>
          else reply0\<lparr>rc := SQL_NO_DATA\<rparr>
      | _ \<Rightarrow> reply0)"

definition link_lost :: driver where
  "link_lost tr =
     (case last tr of
        SQLSetConnectAttr h a v \<Rightarrow> reply0\<lparr>rc := SQL_ERROR\<rparr>
      | SQLDisconnect h \<Rightarrow> reply0\<lparr>rc := SQL_ERROR\<rparr>
      | SQLGetDiagRecW t h i n \<Rightarrow>
          if i = 1 then
            (if filter is_disconnect tr = [] then
               reply0\<lparr>r_state := ''HY000'' @ [NUL], r_buf := ''General error'' @ [NUL]\<rparr>
             else
               reply0\<lparr>r_state := ''08S01'' @ [NUL],
                 r_buf := ''Communication link failure'' @ [NUL]\<rparr>)
          else reply0\<lparr>rc := SQL_NO_DATA\<rparr>
      | _ \<Rightarrow> reply0)"


text \<open>
  The worlds of setting up \<open>world_connected\<close> against \<open>attr_refusing\<close>: when the \<^verbatim>\<open>try\<close> block
  has raised, and when the handler has closed the connection.
\<close>

definition world_setup_failed :: world where
  "world_setup_failed = world_connected\<lparr>
     trace := [SQLSetConnectAttr (Some 100) SQL_ATTR_AUTOCOMMIT 0,
               SQLGetDiagRecW SQL_HANDLE_DBC (Some 100) 1 SMALL_BUFFER_SIZE,
               SQLGetDiagRecW SQL_HANDLE_DBC (Some 100) 2 SMALL_BUFFER_SIZE]\<rparr>"

definition world_setup_closed :: world where
  "world_setup_closed = world0\<lparr>
     trace := [SQLSetConnectAttr (Some 100) SQL_ATTR_AUTOCOMMIT 0,
               SQLGetDiagRecW SQL_HANDLE_DBC (Some 100) 1 SMALL_BUFFER_SIZE,
               SQLGetDiagRecW SQL_HANDLE_DBC (Some 100) 2 SMALL_BUFFER_SIZE,
               SQLDisconnect (Some 100), SQLFreeHandle SQL_HANDLE_DBC (Some 100)],
     conns := (conns world0)(1 := \<lparr>hDbc = None, cursorCount = 0, sessionno = PyInt 0,
                                    cursors = [], dbType = ''Teradata''\<rparr>)\<rparr>"


text \<open>A driver whose \<^verbatim>\<open>SQLGetDiagRecW\<close> answers with \<^verbatim>\<open>SQL_ERROR\<close>.\<close>

definition diag_error :: driver where
  "diag_error tr = reply0\<lparr>rc := SQL_ERROR\<rparr>"


text \<open>
  A driver for a connection that is not open any more: \<^verbatim>\<open>SQLDisconnect\<close> fails with the
  diagnostic records \<^verbatim>\<open>08003\<close> and \<^verbatim>\<open>25000\<close>, in this order, and every other call succeeds.
\<close>

definition not_open_driver :: driver where
  "not_open_driver tr =
     (case last tr of
        SQLDisconnect h \<Rightarrow> reply0\<lparr>rc := SQL_ERROR\<rparr>
      | SQLGetDiagRecW t h i n \<Rightarrow>
          if i = 1 then
            reply0\<lparr>r_state := ''08003'' @ [NUL], r_buf := ''Connection not open'' @ [NUL]\<rparr>
          else if i = 2 then
            reply0\<lparr>r_state := ''25000'' @ [NUL],
              r_buf := ''Invalid transaction state'' @ [NUL]\<rparr>
          else reply0\<lparr>rc := SQL_NO_DATA\<rparr>
      | _ \<Rightarrow> reply0)"

text \<open>
  The worlds of closing \<open>world1\<close> against \<open>not_open_driver\<close>: after the diagnostics of the
  failed \<^verbatim>\<open>SQLDisconnect\<close> have been read, and at the end.
\<close>

definition world_not_open_checked :: world where
  "world_not_open_checked = world1_cursor_closed\<lparr>
     trace := [SQLFreeHandle SQL_HANDLE_STMT (Some 200), SQLDisconnect (Some 100),
               SQLGetDiagRecW SQL_HANDLE_DBC (Some 100) 1 SMALL_BUFFER_SIZE,
               SQLGetDiagRecW SQL_HANDLE_DBC (Some 100) 2 SMALL_BUFFER_SIZE,
               SQLGetDiagRecW SQL_HANDLE_DBC (Some 100) 3 SMALL_BUFFER_SIZE]\<rparr>"

definition world_not_open_closed :: world where
  "world_not_open_closed = world1_closed\<lparr>
     trace := [SQLFreeHandle SQL_HANDLE_STMT (Some 200), SQLDisconnect (Some 100),
               SQLGetDiagRecW SQL_HANDLE_DBC (Some 100) 1 SMALL_BUFFER_SIZE,
               SQLGetDiagRecW SQL_HANDLE_DBC (Some 100) 2 SMALL_BUFFER_SIZE,
               SQLGetDiagRecW SQL_HANDLE_DBC (Some 100) 3 SMALL_BUFFER_SIZE,
               SQLFreeHandle SQL_HANDLE_DBC (Some 100)]\<rparr>"


text \<open>
  The cursor 5 of \<open>world1\<close> with a result set of two text columns and a binary one, its
  generator started; the world while a row is being fetched, and the world after it.
\<close>

definition world_row :: world where
  "world_row = world1\<lparr>curs := (curs world1)(5 := (curs world1 5)\<lparr>
     description := Some [(''a'', ''STRING'', 0, 0, 0), (''b'', ''STRING'', 0, 0, 0),
                          (''c'', BINARY, 0, 0, 0)],
     iterator := Iterator (createBuffer LARGE_BUFFER_SIZE)\<rparr>)\<rparr>"

definition world_row_fetching :: world where
  "world_row_fetching = world_row\<lparr>
     curs := (curs world_row)(5 := (curs world_row 5)\<lparr>iterator := Exhausted\<rparr>),
     trace := [SQLFetch (Some 200)]\<rparr>"

definition world_row_fetched :: world where
  "world_row_fetched = world_row\<lparr>trace :=
     [SQLFetch (Some 200), SQLGetData (Some 200) 1 SQL_C_WCHAR LARGE_BUFFER_SIZE,
      SQLGetData (Some 200) 2 SQL_C_WCHAR LARGE_BUFFER_SIZE,
      SQLGetData (Some 200) 3 SQL_C_BINARY LARGE_BUFFER_SIZE]\<rparr>"


section \<open>Lemmas on the model\<close>

lemma bindIO_InrE:
  assumes "bindIO m f w = Some (Inr y, w')"
  obtains x w1 where "m w = Some (Inr x, w1)" and "f x w1 = Some (Inr y, w')"
  using assms by (auto simp: bindIO_def split: option.splits sum.splits prod.splits)

lemma checkInfo_info: "checkInfo SQL_SUCCESS_WITH_INFO ignore info acc = Inr (acc @ map fst info)"
  by (induction info arbitrary: acc) simp_all

lemma checkInfo_error:
  "rc' \<noteq> SQL_SUCCESS_WITH_INFO \<Longrightarrow>
   checkInfo rc' ignore info [] =
     (case info of
        [] \<Rightarrow> Inr []
      | i # rest \<Rightarrow>
          if (case ignore of None \<Rightarrow> False | Some ig \<Rightarrow> fst i \<in> set ig) then Inr [fst i]
          else Inl (DatabaseError (snd (snd i)) (''['' @ fst i @ ''] '' @ fst (snd i)) (fst i)))"
  by (cases info; cases ignore) auto

lemma two_records_info:
  "getDiagnosticInfo two_records h t w =
     Some (Inr [(''08003'', ''Connection not open'', 5), (''HY000'', ''General error'', 7)],
           w\<lparr>trace := trace w @ [SQLGetDiagRecW t h 1 SMALL_BUFFER_SIZE,
                                  SQLGetDiagRecW t h 2 SMALL_BUFFER_SIZE,
                                  SQLGetDiagRecW t h 3 SMALL_BUFFER_SIZE]\<rparr>)"
  by (simp add: getDiagnosticInfo_def getDiagnosticInfo_loop.simps two_records_def reply0_def
        createBuffer_def store_def outputStr_def byte_in_def Let_def)

section \<open>Claims\<close>

subsection \<open>C1: what checkStatus raises\<close>

text \<open>
  C1, as the code has it. \<^verbatim>\<open>checkStatus\<close> makes no native call and raises nothing when the
  return code is success or no-data. For every other return code, success-with-info too, it
  reads the diagnostic records, and an error raised by that reading is raised by
  \<^verbatim>\<open>checkStatus\<close>. With the records read: on success-with-info it raises nothing and returns
  all their states; on any other return code it raises a database error with the native
  code, the message \<^verbatim>\<open>[state] message\<close> and the state of the first record, unless the state of
  that record is in the ignore set, and with no record it raises nothing. The first record
  whose state is in the ignore set ends the scan: one state is returned and nothing is
  raised, whatever the later records hold.
\<close>

theorem checkStatus_first_record_decides:
  "checkStatus drv rc' envH dbcH stmtH ignore w =
     (if rc' = SQL_SUCCESS \<or> rc' = SQL_NO_DATA then Some (Inr [], w)
      else
        (case getDiagnosticInfo drv (fst (diagHandle envH dbcH stmtH))
                (snd (diagHandle envH dbcH stmtH)) w of
           None \<Rightarrow> None
         | Some (Inl e, w') \<Rightarrow> Some (Inl e, w')
         | Some (Inr info, w') \<Rightarrow>
             Some
               (if rc' = SQL_SUCCESS_WITH_INFO then Inr (map fst info)
                else
                  (case info of
                     [] \<Rightarrow> Inr []
                   | i # rest \<Rightarrow>
                       if (case ignore of None \<Rightarrow> False | Some ig \<Rightarrow> fst i \<in> set ig)
                       then Inr [fst i]
                       else Inl (DatabaseError (snd (snd i)) (''['' @ fst i @ ''] '' @ fst (snd i))
                                   (fst i))),
                w')))"
proof (cases "rc' = SQL_SUCCESS \<or> rc' = SQL_NO_DATA")
  case True
  then show ?thesis by (auto simp: checkStatus_def ret_def)
next
  case False
  show ?thesis
  proof (cases "rc' = SQL_SUCCESS_WITH_INFO")
    case True
    then show ?thesis
      by (auto simp: checkStatus_def bindIO_def ret_def raise_def checkInfo_info
               split: option.splits sum.splits prod.splits)
  next
    case swi: False
    show ?thesis using False swi
      by (simp add: checkStatus_def bindIO_def ret_def raise_def checkInfo_error
               split: option.split sum.split prod.split list.split)
  qed
qed

text \<open>
  The theorem at an error return code, no ignore set and the two records of the driver
  \<open>two_records\<close>: the first record is raised.
\<close>

theorem checkStatus_first_record_decides_witness:
  "checkStatus two_records SQL_ERROR None (Some (Some 7)) None None world0 =
     Some (Inl (DatabaseError 5 ''[08003] Connection not open'' ''08003''),
           world0\<lparr>trace := [SQLGetDiagRecW SQL_HANDLE_DBC (Some 7) 1 SMALL_BUFFER_SIZE,
                            SQLGetDiagRecW SQL_HANDLE_DBC (Some 7) 2 SMALL_BUFFER_SIZE,
                            SQLGetDiagRecW SQL_HANDLE_DBC (Some 7) 3 SMALL_BUFFER_SIZE]\<rparr>)"
  using checkStatus_first_record_decides
    [of two_records SQL_ERROR None "Some (Some 7)" None None world0]
  by (simp add: two_records_info diagHandle_def world0_def)

text \<open>
  Against C1 as stated: the return code is success-with-info, and the driver answers the
  reading of the first diagnostic record with \<^verbatim>\<open>SQL_ERROR\<close>. \<^verbatim>\<open>checkStatus\<close> raises the interface
  error of \<^verbatim>\<open>getDiagnosticInfo\<close>.
\<close>

theorem checkStatus_info_raises_counterexample:
  "checkStatus diag_error SQL_SUCCESS_WITH_INFO None (Some (Some 7)) None None world0 =
     Some (Inl (InterfaceError ''SQL_ERROR'' []),
           world0\<lparr>trace := [SQLGetDiagRecW SQL_HANDLE_DBC (Some 7) 1 SMALL_BUFFER_SIZE]\<rparr>)"
  by (simp add: checkStatus_def bindIO_def diagHandle_def getDiagnosticInfo_def
      getDiagnosticInfo_loop.simps diag_error_def reply0_def createBuffer_def Let_def world0_def)

subsection \<open>C7: closing twice\<close>

lemma conn_close_closed:
  assumes "conn_close drv self w = Some (Inr u, w')"
  shows "\<not> truthy (hDbc (conns w' self))"
proof (cases "truthy (hDbc (conns w self))")
  case False
  with assms show ?thesis by (simp add: conn_close_def ret_def)
next
  case True
  with assms show ?thesis
    unfolding conn_close_def Let_def
    apply simp
    apply (elim bindIO_InrE)
    apply (auto simp: modw_def raise_def truthy_def getw_def split: sum.splits)
    done
qed

lemma cursor_close_closed:
  assumes "cursor_close drv self w = Some (Inr u, w')"
  shows "\<not> truthy (hStmt (curs w' self))"
proof (cases "truthy (hStmt (curs w self))")
  case False
  with assms show ?thesis by (simp add: cursor_close_def ret_def)
next
  case True
  with assms show ?thesis
    unfolding cursor_close_def Let_def
    apply simp
    apply (elim bindIO_InrE)
    apply (auto simp: modw_def raise_def truthy_def getw_def split: sum.splits)
    done
qed

lemma checkStatus_success [simp]: "checkStatus drv SQL_SUCCESS a b c ig w = Some (Inr [], w)"
  by (simp add: checkStatus_def ret_def)

lemma native_accepting [simp]:
  "native accepting c w = Some (Inr reply0, w\<lparr>trace := trace w @ [c]\<rparr>)"
  by (simp add: native_def accepting_def)

lemma rc_reply0 [simp]: "rc reply0 = SQL_SUCCESS"
  by (simp add: reply0_def)

lemma cursor_close_world1:
  "cursor_close accepting 5 world1 = Some (Inr (), world1_cursor_closed)"
  by (simp add: cursor_close_def world1_def world0_def truthy_def bindIO_def getw_def modw_def
        list_remove_def Let_def world1_cursor_closed_def)

lemma conn_close_world1: "conn_close accepting 1 world1 = Some (Inr (), world1_closed)"
  apply (simp add: conn_close_def Let_def)
  apply (simp add: world1_def world0_def truthy_def)
  apply (simp add: bindIO_def ret_def getw_def modw_def list_remove_def world1_closed_def world0_def
      cursor_close_world1[unfolded world1_def world0_def world1_cursor_closed_def, simplified])
  done

text \<open>
  C7. When \<^verbatim>\<open>close\<close> of a connection has returned, a second \<^verbatim>\<open>close\<close> returns without
  raising and leaves the world as it is: no native call is added to the trace and no object
  changes, whatever the driver would answer. The same holds for \<^verbatim>\<open>close\<close> of a cursor.
\<close>

theorem close_twice_noop:
  "(conn_close drv self w = Some (Inr (), w') \<longrightarrow> conn_close drv' self w' = Some (Inr (), w')) \<and>
   (cursor_close drv c w = Some (Inr (), w') \<longrightarrow> cursor_close drv' c w' = Some (Inr (), w'))"
  using conn_close_closed[of drv self w "()" w'] cursor_close_closed[of drv c w "()" w']
  by (auto simp: conn_close_def cursor_close_def ret_def)

text \<open>
  The theorem in the world \<open>world1\<close>: the first \<^verbatim>\<open>close\<close> runs against a driver that accepts
  every call, the second against one that would answer every call with an error.
\<close>

theorem close_twice_noop_witness:
  "conn_close accepting 1 world1 = Some (Inr (), world1_closed) \<and>
   conn_close two_records 1 world1_closed = Some (Inr (), world1_closed) \<and>
   cursor_close accepting 5 world1 = Some (Inr (), world1_cursor_closed) \<and>
   cursor_close two_records 5 world1_cursor_closed = Some (Inr (), world1_cursor_closed)"
  using close_twice_noop [of accepting 1 world1 world1_closed two_records 5]
    close_twice_noop [of accepting 1 world1 world1_cursor_closed two_records 5]
    conn_close_world1 cursor_close_world1
  by simp

lemma bindIO_SomeE:
  assumes "bindIO m f w = Some (res, w')"
  obtains e where "m w = Some (Inl e, w')" and "res = Inl e"
  | x w1 where "m w = Some (Inr x, w1)" and "f x w1 = Some (res, w')"
  using assms by (auto simp: bindIO_def split: option.splits sum.splits prod.splits)

subsection \<open>C4: null values\<close>

lemma store_createBuffer_Nil [simp]: "store b [] = b"
  by (simp add: store_def)

lemma store_NUL [simp]: "store (createBuffer n) [NUL] = createBuffer n"
  by (cases n) (simp_all add: store_def createBuffer_def)

lemma outputStr_createBuffer [simp]: "outputStr (createBuffer n) = Inr []"
  by (cases n) (simp_all add: outputStr_def createBuffer_def)

lemma length_createBuffer [simp]: "length (createBuffer n) = n"
  by (simp add: createBuffer_def)

lemma get_column_null:
  assumes "r = drv (trace w @ [SQLGetData h col (if binaryData then SQL_C_BINARY else SQL_C_WCHAR)
                                 (length buf)])"
  shows
   "(r_len r = SQL_NULL_DATA \<and>
     checkStatus drv (rc r) None None (Some h) None
       (w\<lparr>trace := trace w @ [SQLGetData h col (if binaryData then SQL_C_BINARY else SQL_C_WCHAR)
                                  (length buf)]\<rparr>) = Some (Inr st, w2)
     \<longrightarrow> get_column drv h col binaryData buf w = Some (Inr (PyNone, store buf (r_buf r)), w2)) \<and>
    (get_column drv h col binaryData buf w = Some (Inr (val, buf'), w')
     \<longrightarrow> (val = PyNone \<longleftrightarrow> r_len r = SQL_NULL_DATA))"
proof (intro conjI impI)
  assume "r_len r = SQL_NULL_DATA \<and>
     checkStatus drv (rc r) None None (Some h) None
       (w\<lparr>trace := trace w @ [SQLGetData h col (if binaryData then SQL_C_BINARY else SQL_C_WCHAR)
                                  (length buf)]\<rparr>) = Some (Inr st, w2)"
  then show "get_column drv h col binaryData buf w = Some (Inr (PyNone, store buf (r_buf r)), w2)"
    using assms by (simp add: get_column_def Let_def bindIO_def native_def ret_def)
next
  assume g: "get_column drv h col binaryData buf w = Some (Inr (val, buf'), w')"
  show "val = PyNone \<longleftrightarrow> r_len r = SQL_NULL_DATA"
  proof (cases "r_len r = SQL_NULL_DATA")
    case True
    with g assms show ?thesis
      by (auto simp: get_column_def Let_def bindIO_def native_def ret_def
            split: option.splits sum.splits prod.splits)
  next
    case False
    with g assms have "val \<noteq> PyNone"
      unfolding get_column_def Let_def
      apply (simp add: native_def cong: if_cong)
      apply (elim bindIO_InrE)
      apply (auto simp: ret_def raise_def split: if_splits sum.splits prod.splits elim!: bindIO_InrE)
      done
    with False show ?thesis by simp
  qed
qed

lemma get_columns_run:
  "get_columns drv h ds col buf acc w = Some (Inr (vals, buf'), w') \<Longrightarrow>
     \<exists>ws bs vs. length ws = Suc (length ds) \<and> length bs = Suc (length ds) \<and>
       length vs = length ds \<and> vals = acc @ vs \<and> ws ! 0 = w \<and> bs ! 0 = buf \<and>
       ws ! length ds = w' \<and> bs ! length ds = buf' \<and>
       (\<forall>i<length ds. get_column drv h (col + i) (fst (snd (ds ! i)) = BINARY) (bs ! i) (ws ! i) =
          Some (Inr (vs ! i, bs ! Suc i), ws ! Suc i))"
proof (induction ds arbitrary: col buf acc w)
  case Nil
  then show ?case
    by (intro exI [of _ "[w]"] exI [of _ "[buf]"] exI [of _ "[]"]) (simp add: ret_def)
next
  case (Cons d ds)
  from Cons.prems obtain x w1 where
    a: "get_column drv h col (fst (snd d) = BINARY) buf w = Some (Inr x, w1)" and
    b: "(case x of (val, buf1) \<Rightarrow> get_columns drv h ds (col + 1) buf1 (acc @ [val])) w1 =
          Some (Inr (vals, buf'), w')"
    by (auto elim: bindIO_InrE)
  obtain v b1 where x: "x = (v, b1)" by (cases x)
  from b x have "get_columns drv h ds (col + 1) b1 (acc @ [v]) w1 = Some (Inr (vals, buf'), w')"
    by simp
  from Cons.IH [OF this] obtain ws bs vs where
    r: "length ws = Suc (length ds)" "length bs = Suc (length ds)" "length vs = length ds"
       "vals = (acc @ [v]) @ vs" "ws ! 0 = w1" "bs ! 0 = b1" "ws ! length ds = w'"
       "bs ! length ds = buf'"
       "\<forall>i<length ds. get_column drv h (col + 1 + i) (fst (snd (ds ! i)) = BINARY) (bs ! i) (ws ! i) =
          Some (Inr (vs ! i, bs ! Suc i), ws ! Suc i)"
    by blast
  have "\<forall>i<length (d # ds).
          get_column drv h (col + i) (fst (snd ((d # ds) ! i)) = BINARY) ((buf # bs) ! i) ((w # ws) ! i) =
          Some (Inr ((v # vs) ! i, (buf # bs) ! Suc i), (w # ws) ! Suc i)"
  proof (intro allI impI)
    fix i assume i: "i < length (d # ds)"
    show "get_column drv h (col + i) (fst (snd ((d # ds) ! i)) = BINARY) ((buf # bs) ! i) ((w # ws) ! i) =
          Some (Inr ((v # vs) ! i, (buf # bs) ! Suc i), (w # ws) ! Suc i)"
    proof (cases i)
      case 0
      with a x r(5,6) show ?thesis by simp
    next
      case (Suc j)
      with i r(9) show ?thesis by simp
    qed
  qed
  with r show ?case
    by (intro exI [of _ "w # ws"] exI [of _ "buf # bs"] exI [of _ "v # vs"]) simp
qed

lemma get_columns_complete:
  "length ws = Suc (length ds) \<Longrightarrow> length bs = Suc (length ds) \<Longrightarrow> length vs = length ds \<Longrightarrow>
   (\<forall>i<length ds. get_column drv h (col + i) (fst (snd (ds ! i)) = BINARY) (bs ! i) (ws ! i) =
          Some (Inr (vs ! i, bs ! Suc i), ws ! Suc i)) \<Longrightarrow>
   get_columns drv h ds col (bs ! 0) acc (ws ! 0) =
     Some (Inr (acc @ vs, bs ! length ds), ws ! length ds)"
proof (induction ds arbitrary: ws bs vs col acc)
  case Nil
  then show ?case by (simp add: ret_def)
next
  case (Cons d ds)
  from Cons.prems(1) obtain w ws' where ws: "ws = w # ws'" "length ws' = Suc (length ds)"
    by (cases ws) auto
  from Cons.prems(2) obtain b bs' where bs: "bs = b # bs'" "length bs' = Suc (length ds)"
    by (cases bs) auto
  from Cons.prems(3) obtain v vs' where vs: "vs = v # vs'" "length vs' = length ds"
    by (cases vs) auto
  from Cons.prems(4) [rule_format, of 0] ws bs vs
  have a: "get_column drv h col (fst (snd d) = BINARY) b w = Some (Inr (v, bs' ! 0), ws' ! 0)"
    by simp
  have "\<forall>i<length ds. get_column drv h (col + 1 + i) (fst (snd (ds ! i)) = BINARY) (bs' ! i) (ws' ! i) =
          Some (Inr (vs' ! i, bs' ! Suc i), ws' ! Suc i)"
  proof (intro allI impI)
    fix i assume "i < length ds"
    with Cons.prems(4) [rule_format, of "Suc i"] ws bs vs
    show "get_column drv h (col + 1 + i) (fst (snd (ds ! i)) = BINARY) (bs' ! i) (ws' ! i) =
          Some (Inr (vs' ! i, bs' ! Suc i), ws' ! Suc i)"
      by simp
  qed
  from Cons.IH [OF ws(2) bs(2) vs(2) this, of "acc @ [v]"] a ws bs vs
  show ?case by (simp add: bindIO_def)
qed

lemma rowIterator_next_fetched:
  assumes "iterator (curs w self) = Iterator buf" "h = hStmt (curs w self)"
    and "w1 = w\<lparr>curs := (curs w)(self := (curs w self)\<lparr>iterator := Exhausted\<rparr>),
                trace := trace w @ [SQLFetch h]\<rparr>"
    and "checkStatus drv (rc (drv (trace w1))) None None (Some h) None w1 = Some (Inr st, w2)"
    and "rc (drv (trace w1)) \<noteq> SQL_NO_DATA"
    and "description (curs w2 self) = Some ds"
  shows "rowIterator_next drv self w =
     (case get_columns drv h ds 1 buf [] w2 of
        None \<Rightarrow> None
      | Some (Inl e, w3) \<Rightarrow> Some (Inl e, w3)
      | Some (Inr (vals, buf1), w3) \<Rightarrow>
          Some (Inr (Some vals),
                w3\<lparr>curs := (curs w3)(self := (curs w3 self)\<lparr>iterator := Iterator buf1\<rparr>)\<rparr>))"
  using assms
  by (simp add: rowIterator_next_def set_iterator_def bindIO_def modw_def getw_def native_def
      ret_def split: option.splits sum.splits prod.splits)


text \<open>
  C4. A step of \<^verbatim>\<open>rowIterator\<close> on a cursor whose generator is running with the buffer
  \<open>buf\<close>: \<^verbatim>\<open>SQLFetch\<close> is called, its status check returns, in the world \<open>w2\<close>, the answer is
  not \<^verbatim>\<open>SQL_NO_DATA\<close>, and the cursor's description is \<open>ds\<close>.

  When the step yields a row, the row has one value for every column of the description,
  and it was built column by column: there are the worlds \<open>ws\<close> and the buffers \<open>bs\<close> the
  columns were read in, from \<open>w2\<close> and \<open>buf\<close> on, the value at index \<open>i\<close> is what reading
  column \<open>i + 1\<close> gave, and it is \<^verbatim>\<open>None\<close> exactly when the length the driver reported for the
  first \<^verbatim>\<open>SQLGetData\<close> of that column is the null sentinel \<^verbatim>\<open>SQL_NULL_DATA\<close>. So a null column
  reaches the row as \<^verbatim>\<open>None\<close>, and a column that is not null, empty or not, never does.

  Conversely, when every column is read to a value, one after the other, the step yields the
  row of these values.

  For one column, \<open>rn\<close> being what the driver answers to the first \<^verbatim>\<open>SQLGetData\<close> for it: when
  the length it reports is the sentinel and the status check of the call returns, the column
  decodes to \<^verbatim>\<open>None\<close>; and whenever the column decodes to a value at all, that value is
  \<^verbatim>\<open>None\<close> exactly when the reported length is the sentinel. \<^verbatim>\<open>None\<close> differs from the empty
  text and from the empty byte sequence.
\<close>

theorem null_sentinel_decodes_to_None:
  assumes "iterator (curs w self) = Iterator buf" "h = hStmt (curs w self)"
    and "w1 = w\<lparr>curs := (curs w)(self := (curs w self)\<lparr>iterator := Exhausted\<rparr>),
                trace := trace w @ [SQLFetch h]\<rparr>"
    and "checkStatus drv (rc (drv (trace w1))) None None (Some h) None w1 = Some (Inr st, w2)"
    and "rc (drv (trace w1)) \<noteq> SQL_NO_DATA"
    and "description (curs w2 self) = Some ds"
    and "dataType = (\<lambda>i. if fst (snd (ds ! i)) = BINARY then SQL_C_BINARY else SQL_C_WCHAR)"
    and "rn = drv (trace wn @ [SQLGetData hn col (if binaryData then SQL_C_BINARY else SQL_C_WCHAR)
                                 (length bufn)])"
  shows
   "(rowIterator_next drv self w = Some (Inr (Some row), w') \<longrightarrow>
       length row = length ds \<and>
       (\<exists>ws bs. length ws = Suc (length ds) \<and> length bs = Suc (length ds) \<and>
          ws ! 0 = w2 \<and> bs ! 0 = buf \<and>
          w' = (ws ! length ds)\<lparr>curs := (curs (ws ! length ds))
                 (self := (curs (ws ! length ds) self)\<lparr>iterator := Iterator (bs ! length ds)\<rparr>)\<rparr> \<and>
          (\<forall>i<length ds.
             get_column drv h (Suc i) (fst (snd (ds ! i)) = BINARY) (bs ! i) (ws ! i) =
               Some (Inr (row ! i, bs ! Suc i), ws ! Suc i) \<and>
             (row ! i = PyNone \<longleftrightarrow>
                r_len (drv (trace (ws ! i) @ [SQLGetData h (Suc i) (dataType i) (length (bs ! i))])) =
                  SQL_NULL_DATA)))) \<and>
    (length ws = Suc (length ds) \<and> length bs = Suc (length ds) \<and> length vs = length ds \<and>
     ws ! 0 = w2 \<and> bs ! 0 = buf \<and>
     (\<forall>i<length ds. get_column drv h (Suc i) (fst (snd (ds ! i)) = BINARY) (bs ! i) (ws ! i) =
          Some (Inr (vs ! i, bs ! Suc i), ws ! Suc i)) \<longrightarrow>
       rowIterator_next drv self w =
         Some (Inr (Some vs),
               (ws ! length ds)\<lparr>curs := (curs (ws ! length ds))
                 (self := (curs (ws ! length ds) self)\<lparr>iterator := Iterator (bs ! length ds)\<rparr>)\<rparr>)) \<and>
    (r_len rn = SQL_NULL_DATA \<and>
     checkStatus drv (rc rn) None None (Some hn) None
       (wn\<lparr>trace := trace wn @ [SQLGetData hn col (if binaryData then SQL_C_BINARY else SQL_C_WCHAR)
                                  (length bufn)]\<rparr>) = Some (Inr stn, wn2)
     \<longrightarrow> get_column drv hn col binaryData bufn wn = Some (Inr (PyNone, store bufn (r_buf rn)), wn2)) \<and>
    (get_column drv hn col binaryData bufn wn = Some (Inr (val, bufn'), wn')
     \<longrightarrow> (val = PyNone \<longleftrightarrow> r_len rn = SQL_NULL_DATA)) \<and>
    PyNone \<noteq> PyStr [] \<and> PyNone \<noteq> PyBytes []"
proof -
  note eq = rowIterator_next_fetched [OF assms(1-6)]
  have p1: "rowIterator_next drv self w = Some (Inr (Some row), w') \<longrightarrow>
       length row = length ds \<and>
       (\<exists>ws bs. length ws = Suc (length ds) \<and> length bs = Suc (length ds) \<and>
          ws ! 0 = w2 \<and> bs ! 0 = buf \<and>
          w' = (ws ! length ds)\<lparr>curs := (curs (ws ! length ds))
                 (self := (curs (ws ! length ds) self)\<lparr>iterator := Iterator (bs ! length ds)\<rparr>)\<rparr> \<and>
          (\<forall>i<length ds.
             get_column drv h (Suc i) (fst (snd (ds ! i)) = BINARY) (bs ! i) (ws ! i) =
               Some (Inr (row ! i, bs ! Suc i), ws ! Suc i) \<and>
             (row ! i = PyNone \<longleftrightarrow>
                r_len (drv (trace (ws ! i) @ [SQLGetData h (Suc i) (dataType i) (length (bs ! i))])) =
                  SQL_NULL_DATA)))"
  proof
    assume "rowIterator_next drv self w = Some (Inr (Some row), w')"
    with eq obtain buf1 w3 where
      g: "get_columns drv h ds 1 buf [] w2 = Some (Inr (row, buf1), w3)" and
      w': "w' = w3\<lparr>curs := (curs w3)(self := (curs w3 self)\<lparr>iterator := Iterator buf1\<rparr>)\<rparr>"
      by (auto split: option.splits sum.splits prod.splits)
    from get_columns_run [OF g] obtain ws bs where
      r: "length ws = Suc (length ds)" "length bs = Suc (length ds)" "length row = length ds"
         "ws ! 0 = w2" "bs ! 0 = buf" "ws ! length ds = w3" "bs ! length ds = buf1"
         "\<forall>i<length ds. get_column drv h (1 + i) (fst (snd (ds ! i)) = BINARY) (bs ! i) (ws ! i) =
            Some (Inr (row ! i, bs ! Suc i), ws ! Suc i)"
      by auto
    have "\<forall>i<length ds.
             get_column drv h (Suc i) (fst (snd (ds ! i)) = BINARY) (bs ! i) (ws ! i) =
               Some (Inr (row ! i, bs ! Suc i), ws ! Suc i) \<and>
             (row ! i = PyNone \<longleftrightarrow>
                r_len (drv (trace (ws ! i) @ [SQLGetData h (Suc i) (dataType i) (length (bs ! i))])) =
                  SQL_NULL_DATA)"
    proof (intro allI impI)
      fix i assume "i < length ds"
      with r(8) have c: "get_column drv h (Suc i) (fst (snd (ds ! i)) = BINARY) (bs ! i) (ws ! i) =
               Some (Inr (row ! i, bs ! Suc i), ws ! Suc i)"
        by simp
      from get_column_null [of _ drv "ws ! i" h "Suc i" "fst (snd (ds ! i)) = BINARY" "bs ! i",
          OF refl, THEN conjunct2, rule_format, OF c] assms(7)
      have "row ! i = PyNone \<longleftrightarrow>
                r_len (drv (trace (ws ! i) @ [SQLGetData h (Suc i) (dataType i) (length (bs ! i))])) =
                  SQL_NULL_DATA"
        by simp
      with c show "get_column drv h (Suc i) (fst (snd (ds ! i)) = BINARY) (bs ! i) (ws ! i) =
               Some (Inr (row ! i, bs ! Suc i), ws ! Suc i) \<and>
             (row ! i = PyNone \<longleftrightarrow>
                r_len (drv (trace (ws ! i) @ [SQLGetData h (Suc i) (dataType i) (length (bs ! i))])) =
                  SQL_NULL_DATA)"
        by simp
    qed
    with r w' show "length row = length ds \<and>
       (\<exists>ws bs. length ws = Suc (length ds) \<and> length bs = Suc (length ds) \<and>
          ws ! 0 = w2 \<and> bs ! 0 = buf \<and>
          w' = (ws ! length ds)\<lparr>curs := (curs (ws ! length ds))
                 (self := (curs (ws ! length ds) self)\<lparr>iterator := Iterator (bs ! length ds)\<rparr>)\<rparr> \<and>
          (\<forall>i<length ds.
             get_column drv h (Suc i) (fst (snd (ds ! i)) = BINARY) (bs ! i) (ws ! i) =
               Some (Inr (row ! i, bs ! Suc i), ws ! Suc i) \<and>
             (row ! i = PyNone \<longleftrightarrow>
                r_len (drv (trace (ws ! i) @ [SQLGetData h (Suc i) (dataType i) (length (bs ! i))])) =
                  SQL_NULL_DATA)))"
      by (intro conjI exI [of _ ws] exI [of _ bs]) simp_all
  qed
  have p2: "length ws = Suc (length ds) \<and> length bs = Suc (length ds) \<and> length vs = length ds \<and>
     ws ! 0 = w2 \<and> bs ! 0 = buf \<and>
     (\<forall>i<length ds. get_column drv h (Suc i) (fst (snd (ds ! i)) = BINARY) (bs ! i) (ws ! i) =
          Some (Inr (vs ! i, bs ! Suc i), ws ! Suc i)) \<longrightarrow>
       rowIterator_next drv self w =
         Some (Inr (Some vs),
               (ws ! length ds)\<lparr>curs := (curs (ws ! length ds))
                 (self := (curs (ws ! length ds) self)\<lparr>iterator := Iterator (bs ! length ds)\<rparr>)\<rparr>)"
  proof
    assume a: "length ws = Suc (length ds) \<and> length bs = Suc (length ds) \<and> length vs = length ds \<and>
     ws ! 0 = w2 \<and> bs ! 0 = buf \<and>
     (\<forall>i<length ds. get_column drv h (Suc i) (fst (snd (ds ! i)) = BINARY) (bs ! i) (ws ! i) =
          Some (Inr (vs ! i, bs ! Suc i), ws ! Suc i))"
    then have "\<forall>i<length ds. get_column drv h (1 + i) (fst (snd (ds ! i)) = BINARY) (bs ! i) (ws ! i) =
          Some (Inr (vs ! i, bs ! Suc i), ws ! Suc i)"
      by simp
    from get_columns_complete [of ws ds bs vs drv h 1 "[]", OF _ _ _ this] a
    have "get_columns drv h ds 1 buf [] w2 = Some (Inr (vs, bs ! length ds), ws ! length ds)"
      by simp
    with eq show "rowIterator_next drv self w =
         Some (Inr (Some vs),
               (ws ! length ds)\<lparr>curs := (curs (ws ! length ds))
                 (self := (curs (ws ! length ds) self)\<lparr>iterator := Iterator (bs ! length ds)\<rparr>)\<rparr>)"
      by simp
  qed
  from p1 p2 show ?thesis
    using get_column_null [of rn drv wn hn col binaryData bufn stn wn2 val bufn' wn', OF assms(8)]
    by simp
qed


lemma row_driver_get_column:
  "get_column row_driver h 1 False (createBuffer n) w =
     Some (Inr (PyNone, createBuffer n), w\<lparr>trace := trace w @ [SQLGetData h 1 SQL_C_WCHAR n]\<rparr>)"
  "get_column row_driver h 2 False (createBuffer n) w =
     Some (Inr (PyStr [], createBuffer n), w\<lparr>trace := trace w @ [SQLGetData h 2 SQL_C_WCHAR n]\<rparr>)"
  "get_column row_driver h 3 True (createBuffer n) w =
     Some (Inr (PyBytes [], createBuffer n), w\<lparr>trace := trace w @ [SQLGetData h 3 SQL_C_BINARY n]\<rparr>)"
  by (simp_all add: get_column_def Let_def bindIO_def native_def ret_def row_driver_def reply0_def)

lemma world_row_cursor:
  "iterator (curs world_row 5) = Iterator (createBuffer LARGE_BUFFER_SIZE)"
  "Some 200 = hStmt (curs world_row 5)"
  "world_row_fetching = world_row\<lparr>
     curs := (curs world_row)(5 := (curs world_row 5)\<lparr>iterator := Exhausted\<rparr>),
     trace := trace world_row @ [SQLFetch (Some 200)]\<rparr>"
  "description (curs world_row_fetching 5) =
     Some [(''a'', ''STRING'', 0, 0, 0), (''b'', ''STRING'', 0, 0, 0), (''c'', BINARY, 0, 0, 0)]"
  by (simp_all add: world_row_def world_row_fetching_def world1_def world0_def)

lemma row_driver_fetch:
  "checkStatus row_driver (rc (row_driver (trace world_row_fetching))) None None (Some (Some 200))
     None world_row_fetching = Some (Inr [], world_row_fetching)"
  "rc (row_driver (trace world_row_fetching)) \<noteq> SQL_NO_DATA"
  by (simp_all add: world_row_fetching_def row_driver_def reply0_def)

text \<open>
  The theorem for the row of \<open>row_driver\<close>: the null column, the empty text and the empty
  byte sequence are fetched as \<^verbatim>\<open>None\<close>, \<^verbatim>\<open>''\<close> and \<^verbatim>\<open>bytearray()\<close>.
\<close>

theorem null_sentinel_decodes_to_None_witness:
  "rowIterator_next row_driver 5 world_row =
     Some (Inr (Some [PyNone, PyStr [], PyBytes []]), world_row_fetched) \<and>
   get_column row_driver (Some 200) 1 False (createBuffer LARGE_BUFFER_SIZE) world_row_fetching =
     Some (Inr (PyNone, createBuffer LARGE_BUFFER_SIZE),
           world_row_fetching\<lparr>trace := [SQLFetch (Some 200),
             SQLGetData (Some 200) 1 SQL_C_WCHAR LARGE_BUFFER_SIZE]\<rparr>) \<and>
   PyNone \<noteq> PyStr [] \<and> PyNone \<noteq> PyBytes []"
proof -
  let ?B = "createBuffer LARGE_BUFFER_SIZE"
  let ?g1 = "SQLGetData (Some 200) 1 SQL_C_WCHAR LARGE_BUFFER_SIZE"
  let ?g2 = "SQLGetData (Some 200) 2 SQL_C_WCHAR LARGE_BUFFER_SIZE"
  let ?g3 = "SQLGetData (Some 200) 3 SQL_C_BINARY LARGE_BUFFER_SIZE"
  let ?w0 = "world_row_fetching"
  let ?ws = "[?w0, ?w0\<lparr>trace := trace ?w0 @ [?g1]\<rparr>, ?w0\<lparr>trace := trace ?w0 @ [?g1, ?g2]\<rparr>,
              ?w0\<lparr>trace := trace ?w0 @ [?g1, ?g2, ?g3]\<rparr>]"
  let ?ds = "[(''a'', ''STRING'', 0::int, 0::int, 0::int), (''b'', ''STRING'', 0, 0, 0),
              (''c'', BINARY, 0, 0, 0)]"
  let ?vs = "[PyNone, PyStr [], PyBytes []]"
  note T = null_sentinel_decodes_to_None [where wn = ?w0 and hn = "Some 200" and col = 1 and
      binaryData = False and bufn = ?B and ws = ?ws and bs = "[?B, ?B, ?B, ?B]" and vs = ?vs,
      OF world_row_cursor(1,2,3) row_driver_fetch(1,2) world_row_cursor(4) refl refl]
  have run: "length ?ws = Suc (length ?ds) \<and> length [?B, ?B, ?B, ?B] = Suc (length ?ds) \<and>
     length ?vs = length ?ds \<and> ?ws ! 0 = ?w0 \<and> [?B, ?B, ?B, ?B] ! 0 = ?B \<and>
     (\<forall>i<length ?ds. get_column row_driver (Some 200) (Suc i) (fst (snd (?ds ! i)) = BINARY)
          ([?B, ?B, ?B, ?B] ! i) (?ws ! i) =
          Some (Inr (?vs ! i, [?B, ?B, ?B, ?B] ! Suc i), ?ws ! Suc i))"
    using row_driver_get_column [of "Some 200" LARGE_BUFFER_SIZE]
    by (simp add: All_less_Suc numeral_2_eq_2 numeral_3_eq_3)
  have w: "(?ws ! length ?ds)\<lparr>curs := (curs (?ws ! length ?ds))
             (5 := (curs (?ws ! length ?ds) 5)\<lparr>iterator := Iterator ([?B, ?B, ?B, ?B] ! length ?ds)\<rparr>)\<rparr> =
           world_row_fetched"
    by (simp add: world_row_fetching_def world_row_fetched_def world_row_def world1_def world0_def)
  have null: "r_len (row_driver (trace ?w0 @ [SQLGetData (Some 200) 1
                (if False then SQL_C_BINARY else SQL_C_WCHAR) (length ?B)])) = SQL_NULL_DATA \<and>
     checkStatus row_driver (rc (row_driver (trace ?w0 @ [SQLGetData (Some 200) 1
                (if False then SQL_C_BINARY else SQL_C_WCHAR) (length ?B)]))) None None
       (Some (Some 200)) None
       (?w0\<lparr>trace := trace ?w0 @ [SQLGetData (Some 200) 1
                (if False then SQL_C_BINARY else SQL_C_WCHAR) (length ?B)]\<rparr>) =
       Some (Inr [], ?w0\<lparr>trace := trace ?w0 @ [?g1]\<rparr>)"
    by (simp add: row_driver_def reply0_def)
  from T [THEN conjunct2, THEN conjunct1, rule_format, OF run]
  have a: "rowIterator_next row_driver 5 world_row = Some (Inr (Some ?vs), world_row_fetched)"
    unfolding w .
  from T [THEN conjunct2, THEN conjunct2, THEN conjunct1, rule_format, OF null]
  have b: "get_column row_driver (Some 200) 1 False ?B ?w0 =
     Some (Inr (PyNone, ?B), ?w0\<lparr>trace := [SQLFetch (Some 200), ?g1]\<rparr>)"
    by (simp add: row_driver_def reply0_def world_row_fetching_def)
  from a b show ?thesis by simp
qed


lemmas io_simps = bindIO_def ret_def raise_def getw_def modw_def native_def stmt_call_def
  alloc_def assign_def new_cell_def setValueFunc_def sql_execute_def apply_out_def Let_def

lemma only_diag_refl: "only_diag w w"
  by (auto simp: only_diag_def odbc_calls_def intro: exI[of _ "[]"])

lemma only_diag_step:
  "only_diag (w\<lparr>trace := trace w @ [SQLGetDiagRecW t h i n]\<rparr>) w' \<Longrightarrow> only_diag w w'"
  unfolding only_diag_def odbc_calls_def
  apply (elim exE conjE)
  subgoal for ds
    by (rule exI[of _ "SQLGetDiagRecW t h i n # ds"]) simp
  done

lemma loop_frame:
  assumes "getDiagnosticInfo_loop drv h t info n s m w = Some y"
  shows "only_diag w (snd y) \<and> (\<forall>a b c. fst y \<noteq> Inl (DatabaseError a b c))"
proof (rule getDiagnosticInfo_loop.raw_induct
    [where P = "\<lambda>drv h t info n s m w y.
        only_diag w (snd y) \<and> (\<forall>a b c. fst y \<noteq> Inl (DatabaseError a b c))", OF _ assms],
    goal_cases)
  case (1 f drv h t info n s m w y)
  note IH = 1(1)
  from 1(2) show ?case
    apply (simp add: Let_def split: if_splits sum.splits)
    apply (auto dest!: IH simp: outputStr_def Let_def split: if_splits
          intro: only_diag_step only_diag_step[OF only_diag_refl])
    done
qed

lemma checkStatus_only_diag:
  assumes "checkStatus drv rc' a b c ig w = Some (res, w')"
  shows "only_diag w w'"
  using assms loop_frame[of drv "fst (diagHandle a b c)" "snd (diagHandle a b c)" "[]" 1
      "createBuffer 6" "createBuffer SMALL_BUFFER_SIZE" w]
  by (auto simp: checkStatus_def bindIO_def ret_def raise_def getDiagnosticInfo_def only_diag_refl
      split: if_splits option.splits sum.splits prod.splits)

lemma stmt_call_trace:
  assumes "stmt_call drv h c w = Some (res, w')"
  shows "\<exists>ds. w' = w\<lparr>trace := trace w @ c # ds\<rparr> \<and> odbc_calls ds = []"
proof -
  from assms obtain r0 where
    "checkStatus drv (rc (drv (trace w @ [c]))) None None (Some h) None
       (w\<lparr>trace := trace w @ [c]\<rparr>) = Some (r0, w')"
    by (auto simp: stmt_call_def bindIO_def native_def ret_def
        split: option.splits sum.splits prod.splits)
  from checkStatus_only_diag[OF this] show ?thesis
    by (auto simp: only_diag_def)
qed

lemma check_counts_mismatch:
  "\<forall>q \<in> set pre. int (length q) = numParams \<Longrightarrow> int (length p) \<noteq> numParams \<Longrightarrow>
   check_counts (pre @ p # post) numParams =
     raise (InterfaceError ''PARAMS_MISMATCH'' [int (length p), numParams])"
  by (induction pre) simp_all

lemma exec_rows_mismatch:
  "\<forall>q \<in> set pre. int (length q) = numParams \<Longrightarrow> int (length p) \<noteq> numParams \<Longrightarrow>
   exec_rows drv h cell numParams dataTypes (pre @ p # post) w =
     bindIO (exec_rows drv h cell numParams dataTypes pre)
       (\<lambda>_. raise (InterfaceError ''PARAMS_MISMATCH'' [int (length p), numParams])) w"
proof (induction pre arbitrary: w)
  case Nil
  then show ?case by (simp add: bindIO_def ret_def)
next
  case (Cons q pre)
  then show ?case
    by (auto simp: bindIO_def split: option.splits sum.splits prod.splits)
qed

lemma diag_not_bind: "is_diag c \<Longrightarrow> \<not> is_bind_or_execute c"
  by (cases c) auto

lemma raise_bind [simp]: "bindIO (raise e) f = raise e"
  by (auto simp: bindIO_def raise_def)

subsection \<open>C2: a row with the wrong number of parameters\<close>

text \<open>
  C2. \<open>numParams\<close> is the number of parameters of the prepared statement, and \<open>p\<close> the first
  row whose length differs from it. In per-row mode the rows before \<open>p\<close> are bound and
  executed, and if none of that raises, the parameter-count-mismatch interface error is
  raised in the world those rows left: no native call is made for \<open>p\<close> or for a later row.
  In columnar mode the two statement attributes are set and, if that does not raise, the
  same error is raised; the run never returns normally, and between its start and its end
  there is no bind call and no execute call.
\<close>

theorem params_mismatch_raises_before_binding:
  assumes "\<forall>q \<in> set pre. int (length q) = numParams" and "int (length p) \<noteq> numParams"
  shows
   "exec_rows drv h cell numParams dataTypes (pre @ p # post) w =
      bindIO (exec_rows drv h cell numParams dataTypes pre)
        (\<lambda>_. raise (InterfaceError ''PARAMS_MISMATCH'' [int (length p), numParams])) w \<and>
    executeManyBatch drv ext h (pre @ p # post) numParams dataTypes w =
      bindIO (stmt_call drv h
                (SQLSetStmtAttr h SQL_ATTR_PARAM_BIND_TYPE SQL_PARAM_BIND_BY_COLUMN)) (\<lambda>_.
      bindIO (stmt_call drv h
                (SQLSetStmtAttr h SQL_ATTR_PARAMSET_SIZE (int (length (pre @ p # post))))) (\<lambda>_.
      raise (InterfaceError ''PARAMS_MISMATCH'' [int (length p), numParams]))) w \<and>
    (executeManyBatch drv ext h (pre @ p # post) numParams dataTypes w = Some (res, w') \<longrightarrow>
      (\<exists>e. res = Inl e) \<and> (\<forall>c \<in> set (calls_after w w'). \<not> is_bind_or_execute c))"
proof (intro conjI impI)
  show "exec_rows drv h cell numParams dataTypes (pre @ p # post) w =
      bindIO (exec_rows drv h cell numParams dataTypes pre)
        (\<lambda>_. raise (InterfaceError ''PARAMS_MISMATCH'' [int (length p), numParams])) w"
    using assms by (rule exec_rows_mismatch)
  show eq: "executeManyBatch drv ext h (pre @ p # post) numParams dataTypes w =
      bindIO (stmt_call drv h
                (SQLSetStmtAttr h SQL_ATTR_PARAM_BIND_TYPE SQL_PARAM_BIND_BY_COLUMN)) (\<lambda>_.
      bindIO (stmt_call drv h
                (SQLSetStmtAttr h SQL_ATTR_PARAMSET_SIZE (int (length (pre @ p # post))))) (\<lambda>_.
      raise (InterfaceError ''PARAMS_MISMATCH'' [int (length p), numParams]))) w"
    unfolding executeManyBatch_def check_counts_mismatch[OF assms] by simp
  assume run: "executeManyBatch drv ext h (pre @ p # post) numParams dataTypes w = Some (res, w')"
  from run[unfolded eq] show "\<exists>e. res = Inl e"
    by (auto simp: bindIO_def raise_def split: option.splits sum.splits prod.splits)
  from run[unfolded eq] show "\<forall>c \<in> set (calls_after w w'). \<not> is_bind_or_execute c"
    by (auto simp: bindIO_def raise_def calls_after_def odbc_calls_def filter_empty_conv
        split: option.splits sum.splits prod.splits dest!: stmt_call_trace)
       (blast dest: diag_not_bind)+
qed


text \<open>
  The theorem for a statement with three parameters, a first row of three values and a
  second row of two: per-row mode binds and executes the first row, columnar mode binds
  nothing.
\<close>

theorem params_mismatch_raises_before_binding_witness:
  "map_option (\<lambda>(res, w). (res, trace w))
     (exec_rows accepting (Some 200) 0 3 [SQL_WVARCHAR, SQL_WVARCHAR, SQL_WVARCHAR]
        ([[PText ''1'', PText ''a'', PNone]] @ [PText ''2'', PText ''b''] # []) world0) =
     Some (Inl (InterfaceError ''PARAMS_MISMATCH'' [2, 3]),
       [SQLBindParameter (Some 200) 1 SQL_PARAM_INPUT SQL_C_WCHAR SQL_WVARCHAR 2
          (Some (0, ''1'' @ [NUL])) 2 [SQL_NTS],
        SQLBindParameter (Some 200) 2 SQL_PARAM_INPUT SQL_C_WCHAR SQL_WVARCHAR 2
          (Some (1, ''a'' @ [NUL])) 2 [SQL_NTS],
        SQLBindParameter (Some 200) 3 SQL_PARAM_INPUT SQL_C_WCHAR SQL_WVARCHAR 0 None 0
          [SQL_NULL_DATA],
        SQLExecute (Some 200)]) \<and>
   map_option (\<lambda>(res, w). (res, trace w))
     (executeManyBatch accepting ext0 (Some 200)
        ([[PText ''1'', PText ''a'', PNone]] @ [PText ''2'', PText ''b''] # []) 3
        [SQL_WVARCHAR, SQL_WVARCHAR, SQL_WVARCHAR] world0) =
     Some (Inl (InterfaceError ''PARAMS_MISMATCH'' [2, 3]),
       [SQLSetStmtAttr (Some 200) SQL_ATTR_PARAM_BIND_TYPE SQL_PARAM_BIND_BY_COLUMN,
        SQLSetStmtAttr (Some 200) SQL_ATTR_PARAMSET_SIZE 2])"
  using params_mismatch_raises_before_binding
    [of "[[PText ''1'', PText ''a'', PNone]]" 3 "[PText ''2'', PText ''b'']" accepting
      "Some 200" 0 "[SQL_WVARCHAR, SQL_WVARCHAR, SQL_WVARCHAR]" "[]" world0 ext0]
  by (simp add: io_simps accepting_def reply0_def world0_def checkStatus_def)

subsection \<open>C8: the resolvers of output parameters\<close>

text \<open>
  C8 fails on the code. \<^verbatim>\<open>callproc\<close> is called with an input/output parameter (object 10,
  seed \<^verbatim>\<open>seed\<close>) and an output parameter (object 11); the driver accepts every call and, at
  \<^verbatim>\<open>SQLExecute\<close>, stores \<^verbatim>\<open>A\<close> in the buffer bound to parameter 1 and \<^verbatim>\<open>B\<close> in the buffer bound
  to parameter 2. The bind calls show the buffers: address 1 for parameter 1, address 2 for
  parameter 2. After the call the buffer of parameter 1 holds \<^verbatim>\<open>A\<close> and that of parameter 2
  holds \<^verbatim>\<open>B\<close>, but both resolvers return \<^verbatim>\<open>B\<close>: each is the closure
  \<^verbatim>\<open>lambda: _outputStr(param)\<close> over the one variable \<^verbatim>\<open>param\<close>, which holds the buffer bound
  last.
\<close>

theorem callproc_resolvers_read_last_buffer:
  "map_option (\<lambda>(res, w'). (res, filter is_bind_or_execute (trace w'),
       outputStr (bufs w' 1), outputStr (bufs w' 2), resolve 10 w', resolve 11 w'))
     (callproc proc_driver ext0 5 ''p'' [PInOut 10, POut 11] 0 world2) =
   Some (Inr [],
     [SQLBindParameter (Some 200) 1 SQL_PARAM_INPUT_OUTPUT SQL_C_WCHAR SQL_WVARCHAR 8
        (Some (1, ''seed'' @ replicate 4 NUL)) 8 [SQL_NTS],
      SQLBindParameter (Some 200) 2 SQL_PARAM_OUTPUT SQL_C_WCHAR SQL_WVARCHAR 8
        (Some (2, replicate 8 NUL)) 8 [SQL_NTS],
      SQLExecute (Some 200)],
     Inr ''A'', Inr ''B'', Inr (Some ''B''), Inr (Some ''B''))"
  by (simp add: callproc_def execute_def executemany_def free_def setQueryTimeout_def
      handleResults_def io_simps proc_driver_def reply0_def world2_def world1_def world0_def
      checkStatus_def ext0_def convertLineFeeds_def inputStr_def createBuffer_def
      set_iterator_def resolve_def call_closure_def outputStr_def store_def byte_in_def upt_rec)

lemma bindIO_Inr: "m w = Some (Inr x, w1) \<Longrightarrow> bindIO m f w = f x w1"
  by (simp add: bindIO_def)

lemma checkInfo_raises_unignored:
  "checkInfo rc' (Some ig) info acc = Inl (DatabaseError n m s) \<Longrightarrow> s \<notin> set ig"
  by (induction info arbitrary: acc) (auto simp: Let_def split: if_splits)

lemma checkStatus_raises_unignored:
  assumes "checkStatus drv rc' a b c (Some ig) w = Some (Inl (DatabaseError n m s), w')"
  shows "s \<notin> set ig"
  using assms loop_frame[of drv "fst (diagHandle a b c)" "snd (diagHandle a b c)" "[]" 1
      "createBuffer 6" "createBuffer SMALL_BUFFER_SIZE" w]
  by (auto simp: checkStatus_def bindIO_def ret_def raise_def getDiagnosticInfo_def
      split: if_splits option.splits sum.splits prod.splits dest: checkInfo_raises_unignored)

lemma native_run: "native drv c w = Some (Inr (drv (trace w @ [c])), w\<lparr>trace := trace w @ [c]\<rparr>)"
  by (simp add: native_def)

lemma odbc_calls_append [simp]: "odbc_calls (xs @ ys) = odbc_calls xs @ odbc_calls ys"
  by (simp add: odbc_calls_def)


subsection \<open>C6: closing a connection in an invalid transaction state\<close>

text \<open>
  C6, as the code has it. The connection is open with handle \<open>h\<close>, its cursors have been
  closed, and \<open>r1\<close> is the answer to the first \<^verbatim>\<open>SQLDisconnect\<close>; \<open>DC\<close>, \<open>RB\<close> and \<open>FH\<close> name
  the calls that disconnect, roll back and free the handle, and \<open>finish\<close> is the end of
  \<^verbatim>\<open>close\<close> from a world on: the handle is freed, the answer is checked unless it is
  \<^verbatim>\<open>SQL_INVALID_HANDLE\<close>, the connection is taken off the global list, which raises when it
  is not there, and the handle variable becomes \<^verbatim>\<open>None\<close>.

  First part: the status check of the first \<^verbatim>\<open>SQLDisconnect\<close> returns states that hold
  \<^verbatim>\<open>25000\<close>. Then \<^verbatim>\<open>close\<close> rolls back once; if the check of the rollback raises, \<^verbatim>\<open>close\<close>
  raises that; if it returns, \<^verbatim>\<open>close\<close> disconnects again; if that check raises, \<^verbatim>\<open>close\<close>
  raises that; if it returns, \<^verbatim>\<open>close\<close> ends as \<open>finish\<close> says. Neither check has an ignore
  set. So, however \<^verbatim>\<open>close\<close> ends, its calls after the first check, the reading of
  diagnostics left out, are the rollback, or the rollback and the second disconnect, or
  these and the freeing of the handle; and when \<^verbatim>\<open>close\<close> returns, all three were made and
  the handle variable is \<^verbatim>\<open>None\<close>.

  Second part: the first \<^verbatim>\<open>SQLDisconnect\<close> fails and its first diagnostic record is
  \<^verbatim>\<open>08003\<close>. Then nothing is raised for it and there is no rollback, whatever the later
  records hold: \<^verbatim>\<open>close\<close> ends as \<open>finish\<close> says, from the world in which the records were
  read.
\<close>

theorem close_rolls_back_once:
  assumes opn: "truthy h" "h = hDbc (conns w self)"
    and cur: "close_cursors drv (cursors (conns w self)) w = Some (Inr (), w1)"
    and names: "DC = SQLDisconnect h" "RB = SQLEndTran SQL_HANDLE_DBC h SQL_ROLLBACK"
      "FH = SQLFreeHandle SQL_HANDLE_DBC h"
      "ignore = Some [SQL_STATE_CONNECTION_NOT_OPEN, SQL_STATE_INVALID_TRANSACTION_STATE]"
    and r1: "r1 = drv (trace w1 @ [DC])"
    and fin: "finish =
       (\<lambda>wd. let wf = wd\<lparr>trace := trace wd @ [FH]\<rparr>; rf = drv (trace wf) in
          case (if rc rf \<noteq> SQL_INVALID_HANDLE
                then checkStatus drv (rc rf) None (Some h) None None wf
                else Some (Inr [], wf)) of
            None \<Rightarrow> None
          | Some (Inl e, wg) \<Rightarrow> Some (Inl e, wg)
          | Some (Inr u, wg) \<Rightarrow>
              if self \<in> set (connections wg) then
                Some (Inr (), wg\<lparr>connections := remove1 self (connections wg),
                               conns := (conns wg)(self := (conns wg self)\<lparr>hDbc := None\<rparr>)\<rparr>)
              else Some (Inl ValueError, wg))"
  shows
   "(checkStatus drv (rc r1) None (Some h) None ignore (w1\<lparr>trace := trace w1 @ [DC]\<rparr>) =
       Some (Inr sts, w2) \<and>
     SQL_STATE_INVALID_TRANSACTION_STATE \<in> set sts \<longrightarrow>
       conn_close drv self w =
         (case checkStatus drv (rc (drv (trace w2 @ [RB]))) None (Some h) None None
                 (w2\<lparr>trace := trace w2 @ [RB]\<rparr>) of
            None \<Rightarrow> None
          | Some (Inl e, wb) \<Rightarrow> Some (Inl e, wb)
          | Some (Inr u, wb) \<Rightarrow>
              (case checkStatus drv (rc (drv (trace wb @ [DC]))) None (Some h) None None
                      (wb\<lparr>trace := trace wb @ [DC]\<rparr>) of
                 None \<Rightarrow> None
               | Some (Inl e, wd) \<Rightarrow> Some (Inl e, wd)
               | Some (Inr u, wd) \<Rightarrow> finish wd)) \<and>
       (conn_close drv self w = Some (res, w') \<longrightarrow>
          (odbc_calls (calls_after w2 w') = [RB] \<or>
           odbc_calls (calls_after w2 w') = [RB, DC] \<or>
           odbc_calls (calls_after w2 w') = [RB, DC, FH]) \<and>
          (res = Inr () \<longrightarrow>
             odbc_calls (calls_after w2 w') = [RB, DC, FH] \<and> hDbc (conns w' self) = None))) \<and>
    (rc r1 \<noteq> SQL_SUCCESS \<and> rc r1 \<noteq> SQL_NO_DATA \<and> rc r1 \<noteq> SQL_SUCCESS_WITH_INFO \<and>
     getDiagnosticInfo drv h SQL_HANDLE_DBC (w1\<lparr>trace := trace w1 @ [DC]\<rparr>) =
       Some (Inr (i # rest), w3) \<and>
     fst i = SQL_STATE_CONNECTION_NOT_OPEN \<longrightarrow>
       conn_close drv self w = finish w3)"
proof -
  define ftail where "ftail =
       bindIO (native drv (SQLFreeHandle SQL_HANDLE_DBC h)) (\<lambda>r.
       bindIO
         (if rc r \<noteq> SQL_INVALID_HANDLE then
            bindIO (checkStatus drv (rc r) None (Some h) None None) (\<lambda>_. ret ())
          else ret ()) (\<lambda>_.
       bindIO (getw (\<lambda>w. list_remove self (connections w))) (\<lambda>l.
       case l of
         Inl e \<Rightarrow> raise e
       | Inr cs \<Rightarrow>
           modw (\<lambda>w. w\<lparr>connections := cs,
                         conns := (conns w)(self := (conns w self)\<lparr>hDbc := None\<rparr>)\<rparr>))))"
  define tail where "tail =
       bindIO
         (bindIO (native drv (SQLEndTran SQL_HANDLE_DBC h SQL_ROLLBACK)) (\<lambda>r.
          bindIO (checkStatus drv (rc r) None (Some h) None None) (\<lambda>_.
          bindIO (native drv (SQLDisconnect h)) (\<lambda>r.
          bindIO (checkStatus drv (rc r) None (Some h) None None) (\<lambda>_. ret ())))))
         (\<lambda>_. ftail)"
  have ftail: "ftail wd = finish wd" for wd
    unfolding ftail_def fin names
    by (simp add: bindIO_def native_def ret_def raise_def getw_def modw_def list_remove_def Let_def
        split: option.split sum.split prod.split)
  have n1: "native drv (SQLDisconnect h) w1 =
      Some (Inr r1, w1\<lparr>trace := trace w1 @ [SQLDisconnect h]\<rparr>)"
    by (simp add: native_def r1 names)
  have step: "conn_close drv self w =
      bindIO (if SQL_STATE_INVALID_TRANSACTION_STATE \<in> set sts' then
            bindIO (native drv (SQLEndTran SQL_HANDLE_DBC h SQL_ROLLBACK)) (\<lambda>r.
            bindIO (checkStatus drv (rc r) None (Some h) None None) (\<lambda>_.
            bindIO (native drv (SQLDisconnect h)) (\<lambda>r.
            bindIO (checkStatus drv (rc r) None (Some h) None None) (\<lambda>_. ret ()))))
          else ret ()) (\<lambda>_. ftail) w2'"
    if chk: "checkStatus drv (rc r1) None (Some h) None
                (Some [SQL_STATE_CONNECTION_NOT_OPEN, SQL_STATE_INVALID_TRANSACTION_STATE])
                (w1\<lparr>trace := trace w1 @ [SQLDisconnect h]\<rparr>) = Some (Inr sts', w2')"
    for sts' w2'
    unfolding conn_close_def ftail_def
    apply (simp only: Let_def opn(2)[symmetric] opn(1) if_True)
    apply (simp only: bindIO_Inr[of "close_cursors drv (cursors (conns w self))" w "()" w1, OF cur])
    apply (simp only: bindIO_Inr[of "native drv (SQLDisconnect h)" w1 r1
          "w1\<lparr>trace := trace w1 @ [SQLDisconnect h]\<rparr>", OF n1])
    apply (simp only: bindIO_Inr[of "checkStatus drv (rc r1) None (Some h) None
                (Some [SQL_STATE_CONNECTION_NOT_OPEN, SQL_STATE_INVALID_TRANSACTION_STATE])"
          "w1\<lparr>trace := trace w1 @ [SQLDisconnect h]\<rparr>" sts' w2', OF chk])
    done
  have part1: "conn_close drv self w =
         (case checkStatus drv (rc (drv (trace w2 @ [RB]))) None (Some h) None None
                 (w2\<lparr>trace := trace w2 @ [RB]\<rparr>) of
            None \<Rightarrow> None
          | Some (Inl e, wb) \<Rightarrow> Some (Inl e, wb)
          | Some (Inr u, wb) \<Rightarrow>
              (case checkStatus drv (rc (drv (trace wb @ [DC]))) None (Some h) None None
                      (wb\<lparr>trace := trace wb @ [DC]\<rparr>) of
                 None \<Rightarrow> None
               | Some (Inl e, wd) \<Rightarrow> Some (Inl e, wd)
               | Some (Inr u, wd) \<Rightarrow> finish wd))"
    and part2: "conn_close drv self w = Some (res, w') \<longrightarrow>
          (odbc_calls (calls_after w2 w') = [RB] \<or>
           odbc_calls (calls_after w2 w') = [RB, DC] \<or>
           odbc_calls (calls_after w2 w') = [RB, DC, FH]) \<and>
          (res = Inr () \<longrightarrow>
             odbc_calls (calls_after w2 w') = [RB, DC, FH] \<and> hDbc (conns w' self) = None)"
    if chk: "checkStatus drv (rc r1) None (Some h) None ignore (w1\<lparr>trace := trace w1 @ [DC]\<rparr>) =
       Some (Inr sts, w2)" and inv: "SQL_STATE_INVALID_TRANSACTION_STATE \<in> set sts"
  proof -
    have eq: "conn_close drv self w = tail w2"
      using step[OF chk[unfolded names]] inv by (simp add: tail_def)
    show "conn_close drv self w =
         (case checkStatus drv (rc (drv (trace w2 @ [RB]))) None (Some h) None None
                 (w2\<lparr>trace := trace w2 @ [RB]\<rparr>) of
            None \<Rightarrow> None
          | Some (Inl e, wb) \<Rightarrow> Some (Inl e, wb)
          | Some (Inr u, wb) \<Rightarrow>
              (case checkStatus drv (rc (drv (trace wb @ [DC]))) None (Some h) None None
                      (wb\<lparr>trace := trace wb @ [DC]\<rparr>) of
                 None \<Rightarrow> None
               | Some (Inl e, wd) \<Rightarrow> Some (Inl e, wd)
               | Some (Inr u, wd) \<Rightarrow> finish wd))"
      unfolding eq tail_def names
      by (simp add: bindIO_def native_def ret_def ftail
          split: option.split sum.split prod.split)
    show "conn_close drv self w = Some (res, w') \<longrightarrow>
          (odbc_calls (calls_after w2 w') = [RB] \<or>
           odbc_calls (calls_after w2 w') = [RB, DC] \<or>
           odbc_calls (calls_after w2 w') = [RB, DC, FH]) \<and>
          (res = Inr () \<longrightarrow>
             odbc_calls (calls_after w2 w') = [RB, DC, FH] \<and> hDbc (conns w' self) = None)"
      unfolding eq tail_def ftail_def names
      apply (rule impI)
      apply (elim bindIO_SomeE)
      apply (auto simp: native_def ret_def raise_def getw_def modw_def calls_after_def only_diag_def
        odbc_calls_def filter_empty_conv
        split: if_splits sum.splits dest!: checkStatus_only_diag elim!: bindIO_SomeE)
      done
  qed
  have part3: "conn_close drv self w = finish w3"
    if a: "rc r1 \<noteq> SQL_SUCCESS" "rc r1 \<noteq> SQL_NO_DATA" "rc r1 \<noteq> SQL_SUCCESS_WITH_INFO"
      and d: "getDiagnosticInfo drv h SQL_HANDLE_DBC (w1\<lparr>trace := trace w1 @ [DC]\<rparr>) =
       Some (Inr (i # rest), w3)"
      and f: "fst i = SQL_STATE_CONNECTION_NOT_OPEN"
  proof -
    have "checkStatus drv (rc r1) None (Some h) None
                (Some [SQL_STATE_CONNECTION_NOT_OPEN, SQL_STATE_INVALID_TRANSACTION_STATE])
                (w1\<lparr>trace := trace w1 @ [SQLDisconnect h]\<rparr>) =
            Some (Inr [SQL_STATE_CONNECTION_NOT_OPEN], w3)"
      using a d f
      by (simp add: checkStatus_def diagHandle_def bindIO_def ret_def checkInfo_error names)
    from step[OF this] show ?thesis
      by (simp add: bindIO_def ret_def ftail)
  qed
  from part1 part2 part3 show ?thesis by blast
qed

lemmas eval_simps = conn_close_def cursor_close_def io_simps reply0_def world1_def world0_def
  checkStatus_def truthy_def list_remove_def getDiagnosticInfo_def getDiagnosticInfo_loop.simps
  createBuffer_def store_def outputStr_def byte_in_def odbc_calls_def diagHandle_def
  world1_closed_def world1_cursor_closed_def

lemma world1_open: "truthy (Some 100)" "Some 100 = hDbc (conns world1 1)"
  by (simp_all add: truthy_def world1_def world0_def)

lemma txn_cursors:
  "close_cursors txn_driver (cursors (conns world1 1)) world1 = Some (Inr (), world1_cursor_closed)"
  by (simp add: eval_simps txn_driver_def)

lemma txn_check:
  "checkStatus txn_driver
     (rc (txn_driver (trace world1_cursor_closed @ [SQLDisconnect (Some 100)]))) None
     (Some (Some 100)) None
     (Some [SQL_STATE_CONNECTION_NOT_OPEN, SQL_STATE_INVALID_TRANSACTION_STATE])
     (world1_cursor_closed\<lparr>trace := trace world1_cursor_closed @ [SQLDisconnect (Some 100)]\<rparr>) =
   Some (Inr [''25000''], world_txn_checked)"
  by (simp add: eval_simps txn_driver_def world_txn_checked_def)

lemma txn_close: "conn_close txn_driver 1 world1 = Some (Inr (), world_txn_closed)"
  by (simp add: eval_simps txn_driver_def world_txn_closed_def)

lemma not_open_cursors:
  "close_cursors not_open_driver (cursors (conns world1 1)) world1 =
     Some (Inr (), world1_cursor_closed)"
  by (simp add: eval_simps not_open_driver_def)

lemma not_open_rc:
  "rc (not_open_driver (trace world1_cursor_closed @ [SQLDisconnect (Some 100)])) = SQL_ERROR"
  by (simp add: not_open_driver_def reply0_def)

lemma not_open_diag:
  "getDiagnosticInfo not_open_driver (Some 100) SQL_HANDLE_DBC
     (world1_cursor_closed\<lparr>trace := trace world1_cursor_closed @ [SQLDisconnect (Some 100)]\<rparr>) =
   Some (Inr [(''08003'', ''Connection not open'', 0),
              (''25000'', ''Invalid transaction state'', 0)], world_not_open_checked)"
  by (simp add: eval_simps not_open_driver_def world_not_open_checked_def)

lemma not_open_close:
  "conn_close not_open_driver 1 world1 = Some (Inr (), world_not_open_closed)"
  by (simp add: eval_simps not_open_driver_def world_not_open_closed_def)

text \<open>
  The theorem for \<open>world1\<close>. Against \<open>txn_driver\<close> the rollback, the second
  \<^verbatim>\<open>SQLDisconnect\<close> and the freeing of the handle follow, and \<^verbatim>\<open>close\<close> returns. Against
  \<open>not_open_driver\<close> the record \<^verbatim>\<open>08003\<close> is passed over and \<^verbatim>\<open>close\<close> returns.
\<close>

theorem close_rolls_back_once_witness:
  "conn_close txn_driver 1 world1 = Some (Inr (), world_txn_closed) \<and>
   odbc_calls (calls_after world_txn_checked world_txn_closed) =
     [SQLEndTran SQL_HANDLE_DBC (Some 100) SQL_ROLLBACK, SQLDisconnect (Some 100),
      SQLFreeHandle SQL_HANDLE_DBC (Some 100)] \<and>
   hDbc (conns world_txn_closed 1) = None \<and>
   conn_close not_open_driver 1 world1 = Some (Inr (), world_not_open_closed)"
proof -
  have m: "SQL_STATE_INVALID_TRANSACTION_STATE \<in> set [''25000'']" by simp
  from close_rolls_back_once [OF world1_open txn_cursors refl refl refl refl refl refl,
      THEN conjunct1, rule_format, OF conjI [OF txn_check m], THEN conjunct2, rule_format,
      OF txn_close]
  have a: "odbc_calls (calls_after world_txn_checked world_txn_closed) =
     [SQLEndTran SQL_HANDLE_DBC (Some 100) SQL_ROLLBACK, SQLDisconnect (Some 100),
      SQLFreeHandle SQL_HANDLE_DBC (Some 100)] \<and>
   hDbc (conns world_txn_closed 1) = None"
    by blast
  have x: "rc (not_open_driver (trace world1_cursor_closed @ [SQLDisconnect (Some 100)])) \<noteq>
      SQL_SUCCESS" "rc (not_open_driver (trace world1_cursor_closed @ [SQLDisconnect (Some 100)])) \<noteq>
      SQL_NO_DATA" "rc (not_open_driver (trace world1_cursor_closed @ [SQLDisconnect (Some 100)])) \<noteq>
      SQL_SUCCESS_WITH_INFO"
    unfolding not_open_rc by simp_all
  have f: "fst (''08003'', ''Connection not open'', 0::int) = SQL_STATE_CONNECTION_NOT_OPEN"
    by simp
  note t2 = close_rolls_back_once [OF world1_open not_open_cursors refl refl refl refl refl refl,
      THEN conjunct2, rule_format,
      OF conjI [OF x(1) conjI [OF x(2) conjI [OF x(3) conjI [OF not_open_diag f]]]]]
  have b: "conn_close not_open_driver 1 world1 = Some (Inr (), world_not_open_closed)"
    unfolding t2
    by (simp add: not_open_driver_def reply0_def world_not_open_checked_def
        world_not_open_closed_def world1_cursor_closed_def world1_closed_def world0_def)
  from txn_close a b show ?thesis by blast
qed

lemma lost_close:
  "map_option (\<lambda>(res, w'). (res, odbc_calls (trace w'), hDbc (conns w' 1)))
     (conn_close lost_driver 1 world1) =
     Some (Inl (DatabaseError 0 ''[08003] Connection not open'' ''08003''),
           [SQLFreeHandle SQL_HANDLE_STMT (Some 200), SQLDisconnect (Some 100),
            SQLEndTran SQL_HANDLE_DBC (Some 100) SQL_ROLLBACK, SQLDisconnect (Some 100)],
           Some 100)"
  by (simp add: eval_simps lost_driver_def)

lemma not_open_close_calls:
  "map_option (\<lambda>(res, w'). (res, odbc_calls (trace w'), hDbc (conns w' 1)))
     (conn_close not_open_driver 1 world1) =
     Some (Inr (),
           [SQLFreeHandle SQL_HANDLE_STMT (Some 200), SQLDisconnect (Some 100),
            SQLFreeHandle SQL_HANDLE_DBC (Some 100)],
           None)"
  unfolding not_open_close
  by (simp add: world_not_open_closed_def world1_closed_def world0_def odbc_calls_def)

text \<open>
  Against C6 as stated, twice. A first \<^verbatim>\<open>SQLDisconnect\<close> that fails with the records
  \<^verbatim>\<open>08003\<close> and \<^verbatim>\<open>25000\<close> yields the invalid-transaction-state diagnostic, and \<^verbatim>\<open>close\<close>
  returns without a rollback. And when the first \<^verbatim>\<open>SQLDisconnect\<close> reports \<^verbatim>\<open>25000\<close>, the
  rollback is accepted and the second \<^verbatim>\<open>SQLDisconnect\<close> reports \<^verbatim>\<open>08003\<close>, \<^verbatim>\<open>close\<close> raises
  a database error of state \<^verbatim>\<open>08003\<close>; the handle is not freed and the handle variable
  keeps it.
\<close>

theorem close_no_rollback_or_raises_counterexample:
  "getDiagnosticInfo not_open_driver (Some 100) SQL_HANDLE_DBC
     (world1_cursor_closed\<lparr>trace := trace world1_cursor_closed @ [SQLDisconnect (Some 100)]\<rparr>) =
     Some (Inr [(''08003'', ''Connection not open'', 0),
                (''25000'', ''Invalid transaction state'', 0)], world_not_open_checked) \<and>
   map_option (\<lambda>(res, w'). (res, odbc_calls (trace w'), hDbc (conns w' 1)))
     (conn_close not_open_driver 1 world1) =
     Some (Inr (),
           [SQLFreeHandle SQL_HANDLE_STMT (Some 200), SQLDisconnect (Some 100),
            SQLFreeHandle SQL_HANDLE_DBC (Some 100)],
           None) \<and>
   map_option (\<lambda>(res, w'). (res, odbc_calls (trace w'), hDbc (conns w' 1)))
     (conn_close lost_driver 1 world1) =
     Some (Inl (DatabaseError 0 ''[08003] Connection not open'' ''08003''),
           [SQLFreeHandle SQL_HANDLE_STMT (Some 200), SQLDisconnect (Some 100),
            SQLEndTran SQL_HANDLE_DBC (Some 100) SQL_ROLLBACK, SQLDisconnect (Some 100)],
           Some 100)"
  by (rule conjI [OF not_open_diag conjI [OF not_open_close_calls lost_close]])


end
